theory Spec2Isabelle
  imports Complex_Main
begin

section \<open>JavaScript values\<close>

text \<open>
  The review-submission handler exists twice in the repository: \<^verbatim>\<open>api/index.ts\<close> (the
  serverless entry, authorised by a development token from the environment) and
  \<^verbatim>\<open>web/index.ts\<close> (the Express server, authorised by an offline session found
  through Prisma). Both read loosely typed request data, so the values they handle are
  modelled as JavaScript values.

  A string is a list of 8-bit characters, each standing for one UTF-16 code unit below
  256. A finite number is kept as the rational it denotes (every binary64 value is a
  rational; \<open>-0\<close> is identified with \<open>0\<close>, which no branch of the handlers tells apart).
\<close>

datatype jsnum = NaN | PosInf | NegInf | Fin rat

datatype jsval =
    Undefined
  | Null
  | Bool bool
  | Num jsnum
  | Str string
  | Arr "jsval list"
  | Obj "(string \<times> jsval) list"

text \<open>
  \<open>Obj kvs\<close> is a plain object whose own properties are \<open>kvs\<close>, in enumeration order; a
  key is looked up with \<open>map_of\<close>. Objects come from \<^verbatim>\<open>JSON.parse\<close> or from the body
  parsers only, so no property value is ever callable.
\<close>

datatype exn = TypeError | StoreError | NetworkError

subsection \<open>The runtime's conversions between text and numbers\<close>

text \<open>
  The conversions of the language runtime that the handlers call but do not define are
  collected in a record, so that every general theorem below holds for whatever these
  conversions compute. A concrete instance \<open>js\<close> is defined further down and used
  wherever a definite input is evaluated.
  \<^item> \<open>StringToNumber\<close>: \<^verbatim>\<open>Number(s)\<close> on a string;
  \<^item> \<open>FiniteToString\<close>: \<^verbatim>\<open>String(n)\<close> on a finite number;
  \<^item> \<open>JSON_parse\<close>: \<^verbatim>\<open>JSON.parse(raw)\<close>, \<open>None\<close> when it throws \<^verbatim>\<open>SyntaxError\<close>.
\<close>

record runtime =
  StringToNumber :: "string \<Rightarrow> jsnum"
  FiniteToString :: "rat \<Rightarrow> string"
  JSON_parse :: "string \<Rightarrow> jsval option"

definition NumberToString :: "runtime \<Rightarrow> jsnum \<Rightarrow> string" where
  "NumberToString rt n =
     (case n of
        NaN \<Rightarrow> ''NaN''
      | PosInf \<Rightarrow> ''Infinity''
      | NegInf \<Rightarrow> ''-Infinity''
      | Fin q \<Rightarrow> FiniteToString rt q)"

definition has_own :: "(string \<times> jsval) list \<Rightarrow> string \<Rightarrow> bool" where
  "has_own kvs k = (map_of kvs k \<noteq> None)"

text \<open>
  \<^verbatim>\<open>String(v)\<close> and template interpolation. An array is joined with commas, \<^verbatim>\<open>null\<close> and
  \<^verbatim>\<open>undefined\<close> elements giving the empty string. A plain object gives
  \<^verbatim>\<open>[object Object]\<close> through the inherited \<^verbatim>\<open>toString\<close>; when it has an own property
  called \<^verbatim>\<open>toString\<close> (never callable here), neither that nor \<^verbatim>\<open>valueOf\<close> yields a
  primitive and the conversion throws \<^verbatim>\<open>TypeError\<close>.
\<close>

fun ToString :: "runtime \<Rightarrow> jsval \<Rightarrow> exn + string"
  and join :: "runtime \<Rightarrow> jsval list \<Rightarrow> exn + string" where
  "ToString rt Undefined = Inr ''undefined''"
| "ToString rt Null = Inr ''null''"
| "ToString rt (Bool b) = Inr (if b then ''true'' else ''false'')"
| "ToString rt (Num n) = Inr (NumberToString rt n)"
| "ToString rt (Str s) = Inr s"
| "ToString rt (Arr xs) = join rt xs"
| "ToString rt (Obj kvs) =
     (if has_own kvs ''toString'' then Inl TypeError else Inr ''[object Object]'')"
| "join rt [] = Inr ''''"
| "join rt (x # xs) =
     (case (if x = Undefined \<or> x = Null then Inr '''' else ToString rt x) of
        Inl e \<Rightarrow> Inl e
      | Inr s \<Rightarrow>
          (if xs = [] then Inr s
           else (case join rt xs of Inl e \<Rightarrow> Inl e | Inr r \<Rightarrow> Inr (s @ '','' @ r))))"

text \<open>\<^verbatim>\<open>Number(v)\<close>: objects and arrays go through their string form.\<close>

definition ToNumber :: "runtime \<Rightarrow> jsval \<Rightarrow> exn + jsnum" where
  "ToNumber rt v =
     (case v of
        Undefined \<Rightarrow> Inr NaN
      | Null \<Rightarrow> Inr (Fin 0)
      | Bool b \<Rightarrow> Inr (Fin (if b then 1 else 0))
      | Num n \<Rightarrow> Inr n
      | Str s \<Rightarrow> Inr (StringToNumber rt s)
      | _ \<Rightarrow> (case ToString rt v of Inl e \<Rightarrow> Inl e | Inr s \<Rightarrow> Inr (StringToNumber rt s)))"

definition truthy :: "jsval \<Rightarrow> bool" where
  "truthy v =
     (case v of
        Undefined \<Rightarrow> False
      | Null \<Rightarrow> False
      | Bool b \<Rightarrow> b
      | Num n \<Rightarrow> n \<noteq> NaN \<and> n \<noteq> Fin 0
      | Str s \<Rightarrow> s \<noteq> ''''
      | _ \<Rightarrow> True)"

definition or_else :: "jsval \<Rightarrow> jsval \<Rightarrow> jsval" where
  \<comment> \<open>\<^verbatim>\<open>a || b\<close>\<close>
  "or_else a b = (if truthy a then a else b)"

definition nullish :: "jsval \<Rightarrow> jsval \<Rightarrow> jsval" where
  \<comment> \<open>\<^verbatim>\<open>a ?? b\<close>\<close>
  "nullish a b = (if a = Undefined \<or> a = Null then b else a)"

definition get :: "jsval \<Rightarrow> string \<Rightarrow> jsval" where
  \<comment> \<open>\<^verbatim>\<open>v?.k\<close> and \<^verbatim>\<open>v.k\<close> on a value that is not nullish, for a key \<open>k\<close> that no
      prototype defines (all keys read by the handlers except \<open>length\<close>)\<close>
  "get v k =
     (case v of
        Obj kvs \<Rightarrow> (case map_of kvs k of None \<Rightarrow> Undefined | Some x \<Rightarrow> x)
      | _ \<Rightarrow> Undefined)"

definition isFinite :: "jsnum \<Rightarrow> bool" where
  \<comment> \<open>\<^verbatim>\<open>Number.isFinite\<close>\<close>
  "isFinite n = (case n of Fin q \<Rightarrow> True | _ \<Rightarrow> False)"

definition isInteger :: "jsnum \<Rightarrow> bool" where
  \<comment> \<open>\<^verbatim>\<open>Number.isInteger\<close>\<close>
  "isInteger n = (case n of Fin q \<Rightarrow> snd (quotient_of q) = 1 | _ \<Rightarrow> False)"

definition less_num :: "jsnum \<Rightarrow> jsnum \<Rightarrow> bool" where
  \<comment> \<open>\<^verbatim>\<open>a < b\<close> on numbers; every comparison with \<^verbatim>\<open>NaN\<close> is false\<close>
  "less_num a b =
     (case a of
        NaN \<Rightarrow> False
      | PosInf \<Rightarrow> False
      | NegInf \<Rightarrow> (case b of Fin y \<Rightarrow> True | PosInf \<Rightarrow> True | _ \<Rightarrow> False)
      | Fin x \<Rightarrow> (case b of Fin y \<Rightarrow> x < y | PosInf \<Rightarrow> True | _ \<Rightarrow> False))"

definition startsWith :: "string \<Rightarrow> string \<Rightarrow> bool" where
  "startsWith s p = (take (length p) s = p)"

section \<open>Identifier normalizer\<close>

text \<open>
  \<^verbatim>\<open>
  function toProductGid(id: string | number) {
    const s = String(id);
    if (s.startsWith("gid://shopify/Product/")) return s;
    const n = Number(s);
    return Number.isFinite(n) && n > 0 ? `gid://shopify/Product/${n}` : null;
  }
  \<close>
  The same text in both files. The handlers pass it \<^verbatim>\<open>b.product_id ?? b.productId\<close>, a
  value of type \<^verbatim>\<open>any\<close>, so the argument is a \<open>jsval\<close>; the result \<open>None\<close> is \<^verbatim>\<open>null\<close>.
\<close>

definition gid_prefix :: string where
  "gid_prefix = ''gid://shopify/Product/''"

definition toProductGid :: "runtime \<Rightarrow> jsval \<Rightarrow> exn + string option" where
  "toProductGid rt ident =
     (case ToString rt ident of
        Inl e \<Rightarrow> Inl e
      | Inr s \<Rightarrow>
          if startsWith s gid_prefix then Inr (Some s)
          else
            (let n = StringToNumber rt s
             in if isFinite n \<and> less_num (Fin 0) n
                then Inr (Some (gid_prefix @ NumberToString rt n))
                else Inr None))"

section \<open>A concrete runtime\<close>

text \<open>
  \<open>js\<close> instantiates the runtime record. Numerals are read by the grammar of
  \<^verbatim>\<open>StringNumericLiteral\<close> and denote their exact decimal value; numbers are printed by
  the rules of \<^verbatim>\<open>Number::toString\<close> from their exact decimal digits. Rounding to
  binary64 is not performed, so \<open>js\<close> agrees with the language on numerals of at most
  15 significant digits within the binary64 range and on the whole numbers up to
  \<open>2 ^ 53\<close>, which is where that rounding cannot be observed through reading and printing.
\<close>

definition is_digit :: "char \<Rightarrow> bool" where
  "is_digit c = (48 \<le> (of_char c :: nat) \<and> (of_char c :: nat) \<le> 57)"

definition digit_of :: "char \<Rightarrow> nat option" where
  "digit_of c =
     (let n = (of_char c :: nat)
      in if 48 \<le> n \<and> n \<le> 57 then Some (n - 48)
         else if 97 \<le> n \<and> n \<le> 102 then Some (n - 87)
         else if 65 \<le> n \<and> n \<le> 70 then Some (n - 55)
         else None)"

fun radix_value :: "nat \<Rightarrow> nat \<Rightarrow> string \<Rightarrow> nat option" where
  "radix_value b acc [] = Some acc"
| "radix_value b acc (c # cs) =
     (case digit_of c of
        None \<Rightarrow> None
      | Some d \<Rightarrow> if d < b then radix_value b (acc * b + d) cs else None)"

definition is_ws :: "char \<Rightarrow> bool" where
  \<comment> \<open>white space and line terminators below code unit 256\<close>
  "is_ws c = ((of_char c :: nat) \<in> {9, 10, 11, 12, 13, 32, 160})"

definition trim :: "string \<Rightarrow> string" where
  "trim s = rev (dropWhile is_ws (rev (dropWhile is_ws s)))"

definition scale10 :: "rat \<Rightarrow> int \<Rightarrow> rat" where
  "scale10 m e = (if 0 \<le> e then m * 10 ^ nat e else m / 10 ^ nat (- e))"

definition exponent_part :: "string \<Rightarrow> int option" where
  "exponent_part s =
     (case s of
        [] \<Rightarrow> Some 0
      | c # r \<Rightarrow>
          if c = CHR ''e'' \<or> c = CHR ''E'' then
            (let neg = (r \<noteq> [] \<and> hd r = CHR ''-'');
                 ds = (if r \<noteq> [] \<and> (hd r = CHR ''-'' \<or> hd r = CHR ''+'') then tl r else r)
             in if ds = [] then None
                else (case radix_value 10 0 ds of
                        None \<Rightarrow> None
                      | Some v \<Rightarrow> Some (if neg then - int v else int v)))
          else None)"

definition unsigned_decimal :: "string \<Rightarrow> jsnum" where
  "unsigned_decimal s =
     (if s = ''Infinity'' then PosInf
      else
        (let ip = takeWhile is_digit s;
             r1 = dropWhile is_digit s;
             hasdot = (r1 \<noteq> [] \<and> hd r1 = CHR ''.'');
             fp = (if hasdot then takeWhile is_digit (tl r1) else []);
             r2 = (if hasdot then dropWhile is_digit (tl r1) else r1)
         in if ip = [] \<and> fp = [] then NaN
            else (case (radix_value 10 0 (ip @ fp), exponent_part r2) of
                    (Some m, Some e) \<Rightarrow> Fin (scale10 (of_nat m) (e - int (length fp)))
                  | _ \<Rightarrow> NaN)))"

definition negate :: "jsnum \<Rightarrow> jsnum" where
  "negate n = (case n of NaN \<Rightarrow> NaN | PosInf \<Rightarrow> NegInf | NegInf \<Rightarrow> PosInf | Fin q \<Rightarrow> Fin (- q))"

definition non_decimal :: "nat \<Rightarrow> string \<Rightarrow> jsnum" where
  "non_decimal b ds =
     (if ds = [] then NaN
      else (case radix_value b 0 ds of None \<Rightarrow> NaN | Some v \<Rightarrow> Fin (of_nat v)))"

definition js_StringToNumber :: "string \<Rightarrow> jsnum" where
  "js_StringToNumber s =
     (let t = trim s
      in if t = [] then Fin 0
         else if startsWith t ''0x'' \<or> startsWith t ''0X'' then non_decimal 16 (drop 2 t)
         else if startsWith t ''0o'' \<or> startsWith t ''0O'' then non_decimal 8 (drop 2 t)
         else if startsWith t ''0b'' \<or> startsWith t ''0B'' then non_decimal 2 (drop 2 t)
         else if hd t = CHR ''+'' then unsigned_decimal (tl t)
         else if hd t = CHR ''-'' then negate (unsigned_decimal (tl t))
         else unsigned_decimal t)"

definition digit_char :: "nat \<Rightarrow> char" where
  "digit_char d = char_of (48 + d)"

fun digits_of_nat :: "nat \<Rightarrow> string" where
  "digits_of_nat n =
     (if n < 10 then [digit_char n] else digits_of_nat (n div 10) @ [digit_char (n mod 10)])"

declare digits_of_nat.simps [simp del]

fun frac_digits :: "nat \<Rightarrow> rat \<Rightarrow> nat \<Rightarrow> nat option" where
  \<comment> \<open>the least \<open>f' \<ge> f\<close> (below \<open>f + fuel\<close>) for which \<open>q * 10 ^ f'\<close> is an integer\<close>
  "frac_digits 0 q f = None"
| "frac_digits (Suc fuel) q f =
     (if snd (quotient_of (q * 10 ^ f)) = 1 then Some f else frac_digits fuel q (Suc f))"

fun strip_zeros :: "nat \<Rightarrow> nat \<Rightarrow> nat \<times> nat" where
  \<comment> \<open>\<open>strip_zeros fuel m = (s, t)\<close> with \<open>m = s * 10 ^ t\<close> and \<open>s\<close> not a multiple of ten\<close>
  "strip_zeros 0 m = (m, 0)"
| "strip_zeros (Suc fuel) m =
     (if m \<noteq> 0 \<and> m mod 10 = 0
      then (let (s, t) = strip_zeros fuel (m div 10) in (s, Suc t))
      else (m, 0))"

definition format_digits :: "string \<Rightarrow> int \<Rightarrow> string" where
  \<comment> \<open>the digits \<open>ds\<close> of \<open>s\<close> and the position \<open>n\<close>, where the value is \<open>s * 10 ^ (n - k)\<close>\<close>
  "format_digits ds n =
     (let k = int (length ds)
      in if k \<le> n \<and> n \<le> 21 then ds @ replicate (nat (n - k)) (CHR ''0'')
         else if 0 < n \<and> n \<le> 21 then take (nat n) ds @ ''.'' @ drop (nat n) ds
         else if - 6 < n \<and> n \<le> 0 then ''0.'' @ replicate (nat (- n)) (CHR ''0'') @ ds
         else
           (let e = n - 1;
                ex = (if e < 0 then ''-'' else ''+'') @ digits_of_nat (nat \<bar>e\<bar>)
            in if k = 1 then ds @ ''e'' @ ex
               else [hd ds] @ ''.'' @ tl ds @ ''e'' @ ex))"

definition positive_to_string :: "rat \<Rightarrow> string" where
  "positive_to_string q =
     (case frac_digits 40 q 0 of
        None \<Rightarrow> ''NaN''
      | Some f \<Rightarrow>
          (let m = nat (fst (quotient_of (q * 10 ^ f)));
               (s, t) = strip_zeros (length (digits_of_nat m)) m;
               ds = digits_of_nat s
           in format_digits ds (int (length ds) + int t - int f)))"

definition js_FiniteToString :: "rat \<Rightarrow> string" where
  "js_FiniteToString q =
     (if q = 0 then ''0''
      else if q < 0 then ''-'' @ positive_to_string (- q)
      else positive_to_string q)"

subsection \<open>Reading JSON text\<close>

text \<open>
  \<^verbatim>\<open>JSON.parse\<close> without a reviver. The parser functions take the number of characters
  of the text as fuel; each recursive call consumes at least one character. A later
  member replaces an earlier one of the same key. An escape above \<^verbatim>\<open>00ff\<close> names a
  code unit outside the 8-bit strings used here and is cut to its low byte.
\<close>

definition json_ws :: "char \<Rightarrow> bool" where
  "json_ws c = ((of_char c :: nat) \<in> {9, 10, 13, 32})"

definition skip_ws :: "string \<Rightarrow> string" where
  "skip_ws s = dropWhile json_ws s"

definition unescape :: "char \<Rightarrow> string \<Rightarrow> (char \<times> string) option" where
  "unescape e r =
     (if e = CHR 0x22 \<or> e = CHR 0x5C \<or> e = CHR ''/'' then Some (e, r)
      else if e = CHR ''b'' then Some (CHR 0x08, r)
      else if e = CHR ''f'' then Some (CHR 0x0C, r)
      else if e = CHR ''n'' then Some (CHR 0x0A, r)
      else if e = CHR ''r'' then Some (CHR 0x0D, r)
      else if e = CHR ''t'' then Some (CHR 0x09, r)
      else if e = CHR ''u'' \<and> 4 \<le> length r then
        (case radix_value 16 0 (take 4 r) of
           None \<Rightarrow> None
         | Some n \<Rightarrow> Some (char_of n, drop 4 r))
      else None)"

fun parse_string_chars :: "nat \<Rightarrow> string \<Rightarrow> (string \<times> string) option" where
  "parse_string_chars 0 s = None"
| "parse_string_chars (Suc n) s =
     (case s of
        [] \<Rightarrow> None
      | c # cs \<Rightarrow>
          if c = CHR 0x22 then Some ([], cs)
          else if c = CHR 0x5C then
            (case cs of
               [] \<Rightarrow> None
             | e # r \<Rightarrow>
                 (case unescape e r of
                    None \<Rightarrow> None
                  | Some (ch, r') \<Rightarrow>
                      (case parse_string_chars n r' of
                         None \<Rightarrow> None
                       | Some (t, rest) \<Rightarrow> Some (ch # t, rest))))
          else if (of_char c :: nat) < 32 then None
          else
            (case parse_string_chars n cs of
               None \<Rightarrow> None
             | Some (t, rest) \<Rightarrow> Some (c # t, rest)))"

definition json_number_ok :: "string \<Rightarrow> bool" where
  "json_number_ok s =
     (let s1 = (if s \<noteq> [] \<and> hd s = CHR ''-'' then tl s else s);
          ip = takeWhile is_digit s1;
          r1 = dropWhile is_digit s1;
          hasdot = (r1 \<noteq> [] \<and> hd r1 = CHR ''.'');
          fp = (if hasdot then takeWhile is_digit (tl r1) else []);
          r2 = (if hasdot then dropWhile is_digit (tl r1) else r1)
      in ip \<noteq> [] \<and> (hd ip = CHR ''0'' \<longrightarrow> length ip = 1)
         \<and> (hasdot \<longrightarrow> fp \<noteq> []) \<and> exponent_part r2 \<noteq> None)"

definition number_char :: "char \<Rightarrow> bool" where
  "number_char c = (is_digit c \<or> c \<in> set ''+-.eE'')"

definition put :: "(string \<times> jsval) list \<Rightarrow> string \<times> jsval \<Rightarrow> (string \<times> jsval) list" where
  "put kvs kv =
     (if has_own kvs (fst kv)
      then map (\<lambda>old. if fst old = fst kv then kv else old) kvs
      else kvs @ [kv])"

fun parse_value :: "nat \<Rightarrow> string \<Rightarrow> (jsval \<times> string) option"
  and parse_elems :: "nat \<Rightarrow> string \<Rightarrow> (jsval list \<times> string) option"
  and parse_members :: "nat \<Rightarrow> string \<Rightarrow> ((string \<times> jsval) list \<times> string) option" where
  "parse_value 0 s = None"
| "parse_value (Suc n) s =
     (if s = [] then None
      else if hd s = CHR ''{'' then
        (let r = skip_ws (tl s)
         in if r \<noteq> [] \<and> hd r = CHR ''}'' then Some (Obj [], tl r)
            else (case parse_members n r of
                    None \<Rightarrow> None
                  | Some (kvs, rest) \<Rightarrow> Some (Obj (foldl put [] kvs), rest)))
      else if hd s = CHR ''['' then
        (let r = skip_ws (tl s)
         in if r \<noteq> [] \<and> hd r = CHR '']'' then Some (Arr [], tl r)
            else (case parse_elems n r of
                    None \<Rightarrow> None
                  | Some (vs, rest) \<Rightarrow> Some (Arr vs, rest)))
      else if hd s = CHR 0x22 then
        (case parse_string_chars (length s) (tl s) of
           None \<Rightarrow> None
         | Some (t, rest) \<Rightarrow> Some (Str t, rest))
      else if startsWith s ''true'' then Some (Bool True, drop 4 s)
      else if startsWith s ''false'' then Some (Bool False, drop 5 s)
      else if startsWith s ''null'' then Some (Null, drop 4 s)
      else
        (let tok = takeWhile number_char s
         in if json_number_ok tok
            then Some (Num (js_StringToNumber tok), dropWhile number_char s)
            else None))"
| "parse_elems 0 s = None"
| "parse_elems (Suc n) s =
     (case parse_value n s of
        None \<Rightarrow> None
      | Some (v, r0) \<Rightarrow>
          (let r = skip_ws r0
           in if r = [] then None
              else if hd r = CHR '']'' then Some ([v], tl r)
              else if hd r = CHR '','' then
                (case parse_elems n (skip_ws (tl r)) of
                   None \<Rightarrow> None
                 | Some (vs, rest) \<Rightarrow> Some (v # vs, rest))
              else None))"
| "parse_members 0 s = None"
| "parse_members (Suc n) s =
     (if s = [] \<or> hd s \<noteq> CHR 0x22 then None
      else
        (case parse_string_chars (length s) (tl s) of
           None \<Rightarrow> None
         | Some (k, r0) \<Rightarrow>
             (let r1 = skip_ws r0
              in if r1 = [] \<or> hd r1 \<noteq> CHR '':'' then None
                 else
                   (case parse_value n (skip_ws (tl r1)) of
                      None \<Rightarrow> None
                    | Some (v, r2) \<Rightarrow>
                        (let r = skip_ws r2
                         in if r = [] then None
                            else if hd r = CHR ''}'' then Some ([(k, v)], tl r)
                            else if hd r = CHR '','' then
                              (case parse_members n (skip_ws (tl r)) of
                                 None \<Rightarrow> None
                               | Some (kvs, rest) \<Rightarrow> Some ((k, v) # kvs, rest))
                            else None)))))"

definition js_JSON_parse :: "string \<Rightarrow> jsval option" where
  "js_JSON_parse raw =
     (case parse_value (Suc (length raw)) (skip_ws raw) of
        None \<Rightarrow> None
      | Some (v, rest) \<Rightarrow> if skip_ws rest = [] then Some v else None)"

definition js :: runtime where
  "js = \<lparr>StringToNumber = js_StringToNumber,
         FiniteToString = js_FiniteToString,
         JSON_parse = js_JSON_parse\<rparr>"

section \<open>Serialising values\<close>

text \<open>\<^verbatim>\<open>JSON.stringify\<close> on the values above; \<open>None\<close> is the result \<^verbatim>\<open>undefined\<close>.\<close>

definition hex_char :: "nat \<Rightarrow> char" where
  "hex_char d = (if d < 10 then char_of (48 + d) else char_of (87 + d))"

definition quote_char :: "char \<Rightarrow> string" where
  "quote_char c =
     (let n = (of_char c :: nat)
      in if n = 34 then [CHR 0x5C, CHR 0x22]
         else if n = 92 then [CHR 0x5C, CHR 0x5C]
         else if n = 8 then [CHR 0x5C, CHR ''b'']
         else if n = 12 then [CHR 0x5C, CHR ''f'']
         else if n = 10 then [CHR 0x5C, CHR ''n'']
         else if n = 13 then [CHR 0x5C, CHR ''r'']
         else if n = 9 then [CHR 0x5C, CHR ''t'']
         else if n < 32 then [CHR 0x5C, CHR ''u'', CHR ''0'', CHR ''0'', hex_char (n div 16), hex_char (n mod 16)]
         else [c])"

definition QuoteJSONString :: "string \<Rightarrow> string" where
  "QuoteJSONString s = [CHR 0x22] @ concat (map quote_char s) @ [CHR 0x22]"

fun commas :: "string list \<Rightarrow> string" where
  "commas [] = []"
| "commas [x] = x"
| "commas (x # y # ys) = x @ '','' @ commas (y # ys)"

fun JSON_stringify :: "runtime \<Rightarrow> jsval \<Rightarrow> string option"
  and stringify_elems :: "runtime \<Rightarrow> jsval list \<Rightarrow> string list"
  and stringify_members :: "runtime \<Rightarrow> (string \<times> jsval) list \<Rightarrow> string list" where
  "JSON_stringify rt Undefined = None"
| "JSON_stringify rt Null = Some ''null''"
| "JSON_stringify rt (Bool b) = Some (if b then ''true'' else ''false'')"
| "JSON_stringify rt (Num n) = Some (if isFinite n then NumberToString rt n else ''null'')"
| "JSON_stringify rt (Str s) = Some (QuoteJSONString s)"
| "JSON_stringify rt (Arr xs) = Some (''['' @ commas (stringify_elems rt xs) @ '']'')"
| "JSON_stringify rt (Obj kvs) = Some (''{'' @ commas (stringify_members rt kvs) @ ''}'')"
| "stringify_elems rt [] = []"
| "stringify_elems rt (x # xs) =
     (case JSON_stringify rt x of None \<Rightarrow> ''null'' | Some t \<Rightarrow> t) # stringify_elems rt xs"
| "stringify_members rt [] = []"
| "stringify_members rt (kv # kvs) =
     (case JSON_stringify rt (snd kv) of
        None \<Rightarrow> stringify_members rt kvs
      | Some t \<Rightarrow> (QuoteJSONString (fst kv) @ '':'' @ t) # stringify_members rt kvs)"

section \<open>The confirmation page\<close>

text \<open>
  The argument of \<^verbatim>\<open>sendHtml\<close>,
  \<^verbatim>\<open>opts: { ok: boolean; returnTo?: string; id?: string; message?: string }\<close>. The
  handlers fill \<open>returnTo\<close> and \<open>id\<close> with values that were never checked to be strings, so
  both are \<open>jsval\<close>s (\<open>Undefined\<close> when the property is absent); \<open>message\<close> is always a
  literal or absent.
\<close>

record opts =
  ok :: bool
  returnTo :: jsval
  review_id :: jsval
  message :: "string option"

record response =
  status :: nat
  content_type :: string
  html :: string

definition res_type :: "string \<Rightarrow> string" where
  \<comment> \<open>\<^verbatim>\<open>res.type(t)\<close>: a name without a slash is looked up as a file extension\<close>
  "res_type t =
     (if CHR ''/'' \<in> set t then t
      else if t = ''html'' then ''text/html''
      else ''application/octet-stream'')"

definition interpolate :: "runtime \<Rightarrow> jsval \<Rightarrow> exn + string" where
  \<comment> \<open>\<^verbatim>\<open>${v}\<close> inside a template literal\<close>
  "interpolate rt v = ToString rt v"

definition stringified :: "runtime \<Rightarrow> jsval \<Rightarrow> string" where
  \<comment> \<open>\<^verbatim>\<open>${JSON.stringify(v)}\<close>\<close>
  "stringified rt v = (case JSON_stringify rt v of None \<Rightarrow> ''undefined'' | Some t \<Rightarrow> t)"

definition heading :: "bool \<Rightarrow> string" where
  \<open>heading k = (if k then ''Thanks for your review!'' else ''We couldn't save your review'')\<close>

definition id_part :: "runtime \<Rightarrow> jsval \<Rightarrow> exn + string" where
  \<comment> \<open>\<^verbatim>\<open>${id ? `<p>Review ID: ${id}</p>` : ""}\<close>\<close>
  "id_part rt i =
     (if truthy i
      then (case interpolate rt i of
              Inl e \<Rightarrow> Inl e
            | Inr t \<Rightarrow> Inr (''<p>Review ID: '' @ t @ ''</p>''))
      else Inr [])"

definition message_part :: "string option \<Rightarrow> string" where
  \<comment> \<open>\<^verbatim>\<open>${message ? `<p><small>${message}</small></p>` : ""}\<close>\<close>
  "message_part m =
     (case m of
        None \<Rightarrow> []
      | Some t \<Rightarrow> if t = [] then [] else ''<p><small>'' @ t @ ''</small></p>'')"

definition default_returnTo :: "jsval \<Rightarrow> jsval" where
  \<comment> \<open>the destructuring default \<^verbatim>\<open>returnTo = "/"\<close>\<close>
  "default_returnTo r = (if r = Undefined then Str ''/'' else r)"

text \<open>\<^verbatim>\<open>sendHtml\<close> of \<^verbatim>\<open>api/index.ts\<close>.\<close>

definition sendHtml_api :: "runtime \<Rightarrow> opts \<Rightarrow> exn + response" where
  \<open>sendHtml_api rt opts =
     (let r = default_returnTo (returnTo opts)
      in case id_part rt (review_id opts) of
           Inl e \<Rightarrow> Inl e
         | Inr idp \<Rightarrow>
             (case interpolate rt r of
                Inl e \<Rightarrow> Inl e
              | Inr href \<Rightarrow>
                  Inr \<lparr>status = 200, content_type = res_type ''html'',
                       html =
                         ''<!doctype html>\<newline><meta charset="utf-8"><style>body{font:16px system-ui;padding:24px}</style>\<newline><h1>''
                         @ heading (ok opts) @ ''</h1>\<newline>''
                         @ idp @ message_part (message opts)
                         @ ''\<newline><p><a href="'' @ href @ ''">Continue</a></p>\<newline><script>location.replace(''
                         @ stringified rt r @ '');</script>''\<rparr>))\<close>

text \<open>
  \<^verbatim>\<open>sendHtml\<close> of \<^verbatim>\<open>web/index.ts\<close>, which adds a title and escapes double quotes in the
  link target: \<^verbatim>\<open>const esc = (v = "") => String(v).replace(/"/g, "&quot;")\<close>.
\<close>

definition esc :: "runtime \<Rightarrow> jsval \<Rightarrow> exn + string" where
  \<open>esc rt v =
     (case ToString rt (if v = Undefined then Str [] else v) of
        Inl e \<Rightarrow> Inl e
      | Inr t \<Rightarrow> Inr (concat (map (\<lambda>c. if c = CHR 0x22 then ''&quot;'' else [c]) t)))\<close>

definition sendHtml_web :: "runtime \<Rightarrow> opts \<Rightarrow> exn + response" where
  \<open>sendHtml_web rt opts =
     (let r = default_returnTo (returnTo opts)
      in case id_part rt (review_id opts) of
           Inl e \<Rightarrow> Inl e
         | Inr idp \<Rightarrow>
             (case esc rt r of
                Inl e \<Rightarrow> Inl e
              | Inr href \<Rightarrow>
                  Inr \<lparr>status = 200, content_type = res_type ''text/html'',
                       html =
                         ''<!doctype html>\<newline><meta charset="utf-8">\<newline><title>''
                         @ (if ok opts then ''Thanks!'' else ''We couldn't save your review'')
                         @ ''</title>\<newline><style>body{font:16px/1.4 system-ui, sans-serif; padding:24px}</style>\<newline><h1>''
                         @ heading (ok opts) @ ''</h1>\<newline>''
                         @ idp @ ''\<newline>'' @ message_part (message opts)
                         @ ''\<newline><p><a href="'' @ href @ ''">Continue</a></p>\<newline><script>location.replace(''
                         @ stringified rt r @ '');</script>''\<rparr>))\<close>

section \<open>Requests and the world around a handler\<close>

record request =
  req_query :: jsval
  req_headers :: jsval
  req_body :: jsval

record session =
  accessToken :: string

record http_request =
  url :: string
  http_method :: string
  X_Shopify_Access_Token :: string
  Content_Type :: string
  payload :: string

text \<open>
  What a handler reads from outside: the two environment variables of the serverless
  entry, the answer of \<^verbatim>\<open>prisma.session.findFirst({ where: { shop, isOnline: false } })\<close>
  for a shop, the text of the remote answer to a request (\<^verbatim>\<open>fetch\<close> followed by
  \<^verbatim>\<open>text()\<close>; either may reject), and the clock in milliseconds since the epoch.
\<close>

record world =
  DEV_SHOP_DOMAIN :: "string option"
  DEV_ADMIN_TOKEN :: "string option"
  session_findFirst :: "jsval \<Rightarrow> exn + session option"
  fetch_text :: "http_request \<Rightarrow> exn + string"
  Date_now :: int

datatype event = FindSession jsval | Fetch http_request

definition shop_of :: "request \<Rightarrow> jsval" where
  "shop_of req =
     or_else (get (req_query req) ''shop'')
       (or_else (get (req_headers req) ''x-shopify-shop-domain'') (Str []))"

definition body_of :: "request \<Rightarrow> jsval" where
  \<comment> \<open>\<^verbatim>\<open>req.body ?? {}\<close>\<close>
  "body_of req = nullish (req_body req) (Obj [])"

definition returnTo_of :: "request \<Rightarrow> jsval" where
  "returnTo_of req =
     or_else (get (body_of req) ''return_to'')
       (or_else (get (req_query req) ''return_to'') (Str ''/''))"

definition failure :: "jsval \<Rightarrow> string \<Rightarrow> opts" where
  \<comment> \<open>\<^verbatim>\<open>{ ok: false, returnTo, message }\<close>\<close>
  "failure r m = \<lparr>ok = False, returnTo = r, review_id = Undefined, message = Some m\<rparr>"

definition success :: "jsval \<Rightarrow> jsval \<Rightarrow> opts" where
  \<comment> \<open>\<^verbatim>\<open>{ ok: true, id, returnTo }\<close>\<close>
  "success r i = \<lparr>ok = True, returnTo = r, review_id = i, message = None\<rparr>"

section \<open>The submission pipeline\<close>

subsection \<open>Reading and checking the fields\<close>

text \<open>
  Both handlers read the fields with the same six declarations, before any of them is
  checked:
  \<^verbatim>\<open>
  const productGid = toProductGid(b.product_id ?? b.productId);
  const rating = Number(b.rating);
  const title = String(b.title ?? "");
  const body = String(b.body ?? "");
  const author = String(b.author ?? "");
  const email = String(b.email ?? "");
  \<close>
\<close>

record fields =
  productGid :: "string option"
  rating :: jsnum
  title :: string
  reviewBody :: string
  author :: string
  email :: string

definition read_fields :: "runtime \<Rightarrow> jsval \<Rightarrow> exn + fields" where
  "read_fields rt b =
     (case toProductGid rt (nullish (get b ''product_id'') (get b ''productId'')) of
        Inl e \<Rightarrow> Inl e
      | Inr g \<Rightarrow>
     (case ToNumber rt (get b ''rating'') of
        Inl e \<Rightarrow> Inl e
      | Inr n \<Rightarrow>
     (case ToString rt (nullish (get b ''title'') (Str [])) of
        Inl e \<Rightarrow> Inl e
      | Inr t \<Rightarrow>
     (case ToString rt (nullish (get b ''body'') (Str [])) of
        Inl e \<Rightarrow> Inl e
      | Inr rb \<Rightarrow>
     (case ToString rt (nullish (get b ''author'') (Str [])) of
        Inl e \<Rightarrow> Inl e
      | Inr a \<Rightarrow>
     (case ToString rt (nullish (get b ''email'') (Str [])) of
        Inl e \<Rightarrow> Inl e
      | Inr m \<Rightarrow>
          Inr \<lparr>productGid = g, rating = n, title = t, reviewBody = rb,
               author = a, email = m\<rparr>))))))"

definition rating_invalid :: "jsnum \<Rightarrow> bool" where
  \<comment> \<open>\<^verbatim>\<open>!Number.isInteger(rating) || rating < 1 || rating > 5\<close>\<close>
  "rating_invalid r = (\<not> isInteger r \<or> less_num r (Fin 1) \<or> less_num (Fin 5) r)"

subsection \<open>Building the mutation\<close>

text \<open>\<^verbatim>\<open>new Date().toISOString()\<close>, from the clock's milliseconds since the epoch.\<close>

definition pad :: "nat \<Rightarrow> nat \<Rightarrow> string" where
  "pad k n = (let ds = digits_of_nat n in replicate (k - length ds) (CHR ''0'') @ ds)"

definition year_of_era :: "int \<Rightarrow> int \<times> int" where
  \<comment> \<open>the year within a 400-year era and the day within that year, both counted from
      1 March, of a day of the era (0 to 146096)\<close>
  "year_of_era doe =
     (let c = min (doe div 36524) 3;
          d1 = doe - 36524 * c;
          q = d1 div 1461;
          d2 = d1 mod 1461;
          n = min (d2 div 365) 3
      in (100 * c + 4 * q + n, d2 - 365 * n))"

definition month_of_year :: "int \<Rightarrow> int \<times> int" where
  \<comment> \<open>month (1 to 12) and day of the month of a day counted from 1 March\<close>
  "month_of_year doy =
     (let mp = (5 * doy + 2) div 153
      in (if mp < 10 then mp + 3 else mp - 9, doy - (153 * mp + 2) div 5 + 1))"

definition civil_from_days :: "int \<Rightarrow> int \<times> int \<times> int" where
  \<comment> \<open>year, month and day of the month of a day number (day 0 is 1970-01-01) in the
      proleptic Gregorian calendar\<close>
  "civil_from_days z0 =
     (let z = z0 + 719468;
          (yoe, doy) = year_of_era (z mod 146097);
          (m, d) = month_of_year doy
      in (yoe + 400 * (z div 146097) + (if m \<le> 2 then 1 else 0), m, d))"

definition toISOString :: "int \<Rightarrow> string" where
  "toISOString t =
     (let ms = t mod 86400000;
          (y, m, d) = civil_from_days (t div 86400000);
          year = (if 0 \<le> y \<and> y \<le> 9999 then pad 4 (nat y)
                  else (if y < 0 then ''-'' else ''+'') @ pad 6 (nat \<bar>y\<bar>))
      in year @ ''-'' @ pad 2 (nat m) @ ''-'' @ pad 2 (nat d)
         @ ''T'' @ pad 2 (nat (ms div 3600000))
         @ '':'' @ pad 2 (nat (ms div 60000 mod 60))
         @ '':'' @ pad 2 (nat (ms div 1000 mod 60))
         @ ''.'' @ pad 3 (nat (ms mod 1000)) @ ''Z'')"

definition field :: "string \<Rightarrow> string \<Rightarrow> jsval" where
  \<comment> \<open>\<^verbatim>\<open>{ key: k, value: v }\<close>\<close>
  "field k v = Obj [(''key'', Str k), (''value'', Str v)]"

text \<open>
  \<^verbatim>\<open>
  const variables = {
    fields: [
      { key: "product", value: productGid },
      { key: "rating", value: String(rating) },
      { key: "title", value: title },
      { key: "body", value: body },
      { key: "author", value: author },
      { key: "email", value: email },
      { key: "status", value: "approved" },
      { key: "created", value: new Date().toISOString() }
    ]
  };
  \<close>
\<close>

definition variables :: "runtime \<Rightarrow> string \<Rightarrow> fields \<Rightarrow> int \<Rightarrow> jsval" where
  "variables rt gid f now =
     Obj [(''fields'',
       Arr [field ''product'' gid,
            field ''rating'' (NumberToString rt (rating f)),
            field ''title'' (title f),
            field ''body'' (reviewBody f),
            field ''author'' (author f),
            field ''email'' (email f),
            field ''status'' ''approved'',
            field ''created'' (toISOString now)])]"

definition apiVersion :: string where
  "apiVersion = ''2025-07''"

definition mutation_api :: string where
  \<open>mutation_api = ''\<newline>      mutation($fields:[MetaobjectFieldInput!]!){\<newline>        metaobjectCreate(metaobject:{type:"review",fields:$fields}){\<newline>          metaobject{ id } userErrors{ field message }\<newline>        }\<newline>      }''\<close>

definition mutation_web :: string where
  \<open>mutation_web = ''\<newline>      mutation CreateReview($fields: [MetaobjectFieldInput!]!) {\<newline>        metaobjectCreate(metaobject: { type: "review", fields: $fields }) {\<newline>          metaobject { id }\<newline>          userErrors { field message }\<newline>        }\<newline>      }''\<close>

definition graphql_request ::
  "runtime \<Rightarrow> string \<Rightarrow> string \<Rightarrow> string \<Rightarrow> jsval \<Rightarrow> http_request" where
  "graphql_request rt shop token mutation vars =
     \<lparr>url = ''https://'' @ shop @ ''/admin/api/'' @ apiVersion @ ''/graphql.json'',
      http_method = ''POST'',
      X_Shopify_Access_Token = token,
      Content_Type = ''application/json'',
      payload = stringified rt (Obj [(''query'', Str mutation), (''variables'', vars)])\<rparr>"

subsection \<open>Classifying the remote answer\<close>

definition length_of :: "jsval \<Rightarrow> jsval" where
  \<comment> \<open>\<^verbatim>\<open>v.length\<close> on a value that is not nullish\<close>
  "length_of v =
     (case v of
        Arr xs \<Rightarrow> Num (Fin (of_nat (length xs)))
      | Str s \<Rightarrow> Num (Fin (of_nat (length s)))
      | Obj kvs \<Rightarrow> get v ''length''
      | _ \<Rightarrow> Undefined)"

definition userErrors :: "jsval \<Rightarrow> jsval" where
  \<comment> \<open>\<^verbatim>\<open>json?.data?.metaobjectCreate?.userErrors ?? []\<close>\<close>
  "userErrors json =
     nullish (get (get (get json ''data'') ''metaobjectCreate'') ''userErrors'') (Arr [])"

definition created_id :: "jsval \<Rightarrow> jsval" where
  \<comment> \<open>\<^verbatim>\<open>json?.data?.metaobjectCreate?.metaobject?.id\<close>\<close>
  "created_id json =
     get (get (get (get json ''data'') ''metaobjectCreate'') ''metaobject'') ''id''"

text \<open>
  The handler from the remote text on (the same statements in both files):
  \<^verbatim>\<open>
  let json: any;
  try { json = JSON.parse(raw); }
  catch { return sendHtml(res, { ok: false, returnTo, message: "API returned non-JSON" }); }
  const errs = json?.data?.metaobjectCreate?.userErrors ?? [];
  if (errs.length) {
    return sendHtml(res, { ok: false, returnTo, message: "Validation error" });
  }
  const id: string | undefined = json?.data?.metaobjectCreate?.metaobject?.id;
  return sendHtml(res, { ok: true, id, returnTo });
  \<close>
\<close>

definition after_fetch :: "runtime \<Rightarrow> jsval \<Rightarrow> string \<Rightarrow> opts" where
  "after_fetch rt r raw =
     (case JSON_parse rt raw of
        None \<Rightarrow> failure r ''API returned non-JSON''
      | Some json \<Rightarrow>
          if truthy (length_of (userErrors json)) then failure r ''Validation error''
          else success r (created_id json))"

definition call_remote ::
  "runtime \<Rightarrow> world \<Rightarrow> jsval \<Rightarrow> string \<Rightarrow> string \<Rightarrow> jsval \<Rightarrow> jsval
     \<Rightarrow> event list \<times> (exn + opts)" where
  "call_remote rt w shop token mutation vars r =
     (case interpolate rt shop of
        Inl e \<Rightarrow> ([], Inl e)
      | Inr sh \<Rightarrow>
          (let rq = graphql_request rt sh token mutation vars
           in case fetch_text w rq of
                Inl e \<Rightarrow> ([Fetch rq], Inl e)
              | Inr raw \<Rightarrow> ([Fetch rq], Inr (after_fetch rt r raw))))"

subsection \<open>The handler of the serverless entry\<close>

definition dev_credential :: "world \<Rightarrow> jsval \<Rightarrow> string option" where
  \<comment> \<open>the token, unless \<^verbatim>\<open>!devShop || !devToken || shop !== devShop\<close>\<close>
  "dev_credential w shop =
     (case DEV_SHOP_DOMAIN w of
        None \<Rightarrow> None
      | Some devShop \<Rightarrow>
          (case DEV_ADMIN_TOKEN w of
             None \<Rightarrow> None
           | Some devToken \<Rightarrow>
               if devShop = [] \<or> devToken = [] \<or> shop \<noteq> Str devShop then None
               else Some devToken))"

text \<open>
  The body of the \<^verbatim>\<open>try\<close> block of \<^verbatim>\<open>api/index.ts\<close>. Every \<^verbatim>\<open>return\<close> in it is
  \<^verbatim>\<open>return sendHtml(res, opts)\<close>, so the block is modelled by the \<open>opts\<close> it hands to
  \<^verbatim>\<open>sendHtml\<close> (or the exception it raises before), together with the remote calls it
  has made. \<^verbatim>\<open>!productGid\<close> holds for \<^verbatim>\<open>null\<close> and for the empty string.
\<close>

definition api_try :: "runtime \<Rightarrow> world \<Rightarrow> request \<Rightarrow> event list \<times> (exn + opts)" where
  "api_try rt w req =
     (let shop = shop_of req; b = body_of req; r = returnTo_of req
      in if \<not> truthy shop then ([], Inr (failure r ''Missing shop''))
         else
           (case dev_credential w shop of
              None \<Rightarrow> ([], Inr (failure r ''App not authorized for this shop''))
            | Some devToken \<Rightarrow>
                (case read_fields rt b of
                   Inl e \<Rightarrow> ([], Inl e)
                 | Inr f \<Rightarrow>
                     (case productGid f of
                        None \<Rightarrow> ([], Inr (failure r ''Invalid product id''))
                      | Some gid \<Rightarrow>
                          if gid = [] then ([], Inr (failure r ''Invalid product id''))
                          else if rating_invalid (rating f)
                          then ([], Inr (failure r ''Rating must be 1..5''))
                          else call_remote rt w shop devToken mutation_api
                                 (variables rt gid f (Date_now w)) r))))"

subsection \<open>The handler of the Express server\<close>

text \<open>
  The body of the \<^verbatim>\<open>try\<close> block of \<^verbatim>\<open>web/index.ts\<close>, in the same way. The token is
  \<^verbatim>\<open>session?.accessToken\<close>, refused when no session was found or the token is empty.
\<close>

definition web_try :: "runtime \<Rightarrow> world \<Rightarrow> request \<Rightarrow> event list \<times> (exn + opts)" where
  "web_try rt w req =
     (let shop = shop_of req; b = body_of req; r = returnTo_of req
      in if \<not> truthy shop then ([], Inr (failure r ''Missing shop''))
         else
           (case read_fields rt b of
              Inl e \<Rightarrow> ([], Inl e)
            | Inr f \<Rightarrow>
                (case productGid f of
                   None \<Rightarrow> ([], Inr (failure r ''Invalid product id''))
                 | Some gid \<Rightarrow>
                     if gid = [] then ([], Inr (failure r ''Invalid product id''))
                     else if rating_invalid (rating f)
                     then ([], Inr (failure r ''Rating must be 1..5''))
                     else
                       (case session_findFirst w shop of
                          Inl e \<Rightarrow> ([FindSession shop], Inl e)
                        | Inr None \<Rightarrow>
                            ([FindSession shop],
                             Inr (failure r ''App not authorized for this shop''))
                        | Inr (Some found) \<Rightarrow>
                            if accessToken found = []
                            then ([FindSession shop],
                                  Inr (failure r ''App not authorized for this shop''))
                            else
                              (let called =
                                     call_remote rt w shop (accessToken found) mutation_web
                                       (variables rt gid f (Date_now w)) r
                               in (FindSession shop # fst called, snd called))))))"

subsection \<open>Rendering and the catch clause\<close>

text \<open>
  \<^verbatim>\<open>
  try { ... return sendHtml(res, opts); ... }
  catch { return sendHtml(res, { ok: false, returnTo, message: "Server error" }); }
  \<close>
  An exception raised inside the block, by a conversion, a collaborator or the
  \<^verbatim>\<open>sendHtml\<close> being returned, reaches the catch clause. An exception raised by the
  \<^verbatim>\<open>sendHtml\<close> of the catch clause leaves the handler.
\<close>

definition respond ::
  "(opts \<Rightarrow> exn + response) \<Rightarrow> jsval \<Rightarrow> event list \<times> (exn + opts)
     \<Rightarrow> event list \<times> (exn + response)" where
  "respond send r tried =
     (case (case snd tried of Inl e \<Rightarrow> Inl e | Inr opts \<Rightarrow> send opts) of
        Inl e \<Rightarrow> (fst tried, send (failure r ''Server error''))
      | Inr page \<Rightarrow> (fst tried, Inr page))"

definition api_submit :: "runtime \<Rightarrow> world \<Rightarrow> request \<Rightarrow> event list \<times> (exn + response)" where
  "api_submit rt w req = respond (sendHtml_api rt) (returnTo_of req) (api_try rt w req)"

definition web_submit :: "runtime \<Rightarrow> world \<Rightarrow> request \<Rightarrow> event list \<times> (exn + response)" where
  "web_submit rt w req = respond (sendHtml_web rt) (returnTo_of req) (web_try rt w req)"

section \<open>Notions of the specification\<close>

text \<open>
  The canonical product reference in the specification's words: the fixed prefix followed
  by a positive integer, that is, by decimal digits that are not all zero.
\<close>

definition canonical :: "string \<Rightarrow> bool" where
  "canonical s =
     (startsWith s gid_prefix \<and>
      (let d = drop (length gid_prefix) s
       in d \<noteq> [] \<and> list_all is_digit d \<and> list_ex (\<lambda>c. c \<noteq> CHR ''0'') d))"


section \<open>Scenarios\<close>

text \<open>
  Concrete requests and worlds on which the handlers are run below: a submission for a
  shop with a product reference and a rating, and a deployment that knows the shop
  \<^verbatim>\<open>shop.example\<close> only (by its development token and by an offline session) and whose
  remote side answers as given.
\<close>

definition submission :: "string \<Rightarrow> jsval \<Rightarrow> jsval \<Rightarrow> request" where
  "submission shop product stars =
     \<lparr>req_query = Obj [(''shop'', Str shop)],
      req_headers = Obj [],
      req_body = Obj [(''product_id'', product), (''rating'', stars)]\<rparr>"

definition deployment :: "(http_request \<Rightarrow> exn + string) \<Rightarrow> world" where
  "deployment remote =
     \<lparr>DEV_SHOP_DOMAIN = Some ''shop.example'',
      DEV_ADMIN_TOKEN = Some ''dev-token'',
      session_findFirst =
        (\<lambda>shop. if shop = Str ''shop.example''
                then Inr (Some \<lparr>accessToken = ''offline-token''\<rparr>)
                else Inr None),
      fetch_text = remote,
      Date_now = 1762041600000\<rparr>"

definition created_answer :: string where
  \<open>created_answer = ''{"data":{"metaobjectCreate":{"metaobject":{"id":"gid://x/Metaobject/1"},"userErrors":[]}}}''\<close>

definition rejected_answer :: string where
  \<open>rejected_answer = ''{"data":{"metaobjectCreate":{"metaobject":null,"userErrors":[{"field":"rating","message":"bad"}]}}}''\<close>

definition gateway_answer :: string where
  \<open>gateway_answer = ''<html><body>502 Bad Gateway</body></html>''\<close>

definition throttled_answer :: string where
  \<comment> \<open>an answer with top-level errors and no \<^verbatim>\<open>data\<close>, as sent for a refused call\<close>
  \<open>throttled_answer = ''{"errors":[{"message":"Throttled"}]}''\<close>

definition answers :: "string \<Rightarrow> http_request \<Rightarrow> exn + string" where
  \<comment> \<open>a remote side that answers every request with the given text\<close>
  "answers raw rq = Inr raw"


definition plain_fields :: "string \<Rightarrow> jsnum \<Rightarrow> fields" where
  "plain_fields gid stars =
     \<lparr>productGid = Some gid, rating = stars, title = [], reviewBody = [], author = [],
      email = []\<rparr>"

definition unprintable_target :: request where
  \<comment> \<open>a request with the JSON body \<^verbatim>\<open>{"return_to":{"toString":1}}\<close> and nothing else\<close>
  "unprintable_target =
     \<lparr>req_query = Obj [], req_headers = Obj [],
      req_body = Obj [(''return_to'', Obj [(''toString'', Num (Fin 1))])]\<rparr>"

section \<open>Properties of the identifier normalizer\<close>

lemma js_simps [simp]:
  "StringToNumber js = js_StringToNumber"
  "FiniteToString js = js_FiniteToString"
  "JSON_parse js = js_JSON_parse"
  by (simp_all add: js_def)

subsection \<open>Whole numbers, read and printed\<close>



















subsection \<open>The normalizer\<close>









text \<open>
  Claim C3, as stated: every successful output of the normalizer has the canonical form
  \<^verbatim>\<open>gid://<namespace>/Product/<positive integer>\<close>. It fails: the normalizer returns any
  text that begins with the prefix unchanged, whatever follows the prefix.
\<close>

theorem c3_noncanonical_output:
  "toProductGid js (Str ''gid://shopify/Product/abc'') = Inr (Some ''gid://shopify/Product/abc'')
   \<and> \<not> canonical ''gid://shopify/Product/abc''"
  by (simp add: toProductGid_def startsWith_def gid_prefix_def canonical_def is_digit_def)

text \<open>
  Claim C3, amended: every successful output of the normalizer begins with the prefix
  \<^verbatim>\<open>gid://shopify/Product/\<close>, and it is either the text of the input, unchanged (the
  text already began with the prefix; what follows the prefix is not inspected), or the
  prefix followed by the printed form of the number that the text of the input reads as,
  a finite number greater than zero (not necessarily an integer). There is no successful
  output of any other shape.
\<close>

theorem c3_output_shape:
  "toProductGid rt v = Inr (Some g) \<Longrightarrow>
     startsWith g gid_prefix \<and>
     (\<exists>s. ToString rt v = Inr s \<and>
        (g = s \<and> startsWith s gid_prefix \<or>
         (\<exists>q. StringToNumber rt s = Fin q \<and> 0 < q \<and> g = gid_prefix @ FiniteToString rt q)))"
  by (auto simp: toProductGid_def Let_def isFinite_def less_num_def NumberToString_def
        startsWith_def split: sum.splits if_splits jsnum.splits)

theorem c3_output_shape_witness:
  "toProductGid js (Str ''42'') = Inr (Some ''gid://shopify/Product/42'') \<and>
   startsWith ''gid://shopify/Product/42'' gid_prefix \<and>
   js_StringToNumber ''42'' = Fin 42 \<and>
   ''gid://shopify/Product/42'' = gid_prefix @ js_FiniteToString 42"
proof -
  have run: "toProductGid js (Str ''42'') = Inr (Some ''gid://shopify/Product/42'')"
    by code_simp
  have parsed: "js_StringToNumber ''42'' = Fin 42"
    by code_simp
  have printed: "''gid://shopify/Product/42'' = gid_prefix @ js_FiniteToString 42"
    by code_simp
  from c3_output_shape [OF run] run parsed printed show ?thesis
    by simp
qed



section \<open>Properties of the pipeline\<close>

subsection \<open>What a remote call implies\<close>

lemma web_try_fetch:
  assumes "Fetch rq \<in> set (fst (web_try rt w req))"
  shows "\<exists>f gid found sh.
           truthy (shop_of req) \<and> read_fields rt (body_of req) = Inr f \<and>
           productGid f = Some gid \<and> gid \<noteq> [] \<and> \<not> rating_invalid (rating f) \<and>
           session_findFirst w (shop_of req) = Inr (Some found) \<and> accessToken found \<noteq> [] \<and>
           ToString rt (shop_of req) = Inr sh \<and>
           rq = graphql_request rt sh (accessToken found) mutation_web
                  (variables rt gid f (Date_now w)) \<and>
           web_try rt w req =
             ([FindSession (shop_of req), Fetch rq],
              case fetch_text w rq of
                Inl e \<Rightarrow> Inl e
              | Inr raw \<Rightarrow> Inr (after_fetch rt (returnTo_of req) raw))"
  using assms
  by (auto simp: web_try_def call_remote_def interpolate_def Let_def
           split: if_splits sum.splits option.splits)

lemma api_try_fetch:
  assumes "Fetch rq \<in> set (fst (api_try rt w req))"
  shows "\<exists>f gid devToken sh.
           truthy (shop_of req) \<and> dev_credential w (shop_of req) = Some devToken \<and>
           read_fields rt (body_of req) = Inr f \<and>
           productGid f = Some gid \<and> gid \<noteq> [] \<and> \<not> rating_invalid (rating f) \<and>
           ToString rt (shop_of req) = Inr sh \<and>
           rq = graphql_request rt sh devToken mutation_api
                  (variables rt gid f (Date_now w)) \<and>
           api_try rt w req =
             ([Fetch rq],
              case fetch_text w rq of
                Inl e \<Rightarrow> Inl e
              | Inr raw \<Rightarrow> Inr (after_fetch rt (returnTo_of req) raw))"
  using assms
  by (auto simp: api_try_def call_remote_def interpolate_def Let_def
           split: if_splits sum.splits option.splits)

lemma web_try_after_fetch:
  "Fetch rq \<in> set (fst (web_try rt w req)) \<Longrightarrow>
   snd (web_try rt w req) =
     (case fetch_text w rq of
        Inl e \<Rightarrow> Inl e
      | Inr raw \<Rightarrow> Inr (after_fetch rt (returnTo_of req) raw))"
  using web_try_fetch [of rq rt w req] by auto

lemma api_try_after_fetch:
  "Fetch rq \<in> set (fst (api_try rt w req)) \<Longrightarrow>
   snd (api_try rt w req) =
     (case fetch_text w rq of
        Inl e \<Rightarrow> Inl e
      | Inr raw \<Rightarrow> Inr (after_fetch rt (returnTo_of req) raw))"
  using api_try_fetch [of rq rt w req] by auto

lemma respond_exn:
  "snd tried = Inl e \<Longrightarrow> respond send r tried = (fst tried, send (failure r ''Server error''))"
  by (simp add: respond_def)

lemma nonempty_list_truthy: "truthy (length_of (Arr xs)) = (xs \<noteq> [])"
  by (simp add: truthy_def length_of_def)

lemma web_classified:
  assumes "Fetch rq \<in> set (fst (web_try rt w req))"
  shows "fetch_text w rq = Inl e \<Longrightarrow>
           snd (web_submit rt w req) = sendHtml_web rt (failure (returnTo_of req) ''Server error'')"
    and "fetch_text w rq = Inr raw \<Longrightarrow> JSON_parse rt raw = None \<Longrightarrow>
           snd (web_try rt w req) = Inr (failure (returnTo_of req) ''API returned non-JSON'')"
    and "fetch_text w rq = Inr raw \<Longrightarrow> JSON_parse rt raw = Some json \<Longrightarrow>
           truthy (length_of (userErrors json)) \<Longrightarrow>
           snd (web_try rt w req) = Inr (failure (returnTo_of req) ''Validation error'')"
    and "fetch_text w rq = Inr raw \<Longrightarrow> JSON_parse rt raw = Some json \<Longrightarrow>
           \<not> truthy (length_of (userErrors json)) \<Longrightarrow>
           snd (web_try rt w req) = Inr (success (returnTo_of req) (created_id json))"
  using web_try_after_fetch [OF assms]
  by (simp_all add: after_fetch_def web_submit_def respond_exn)

lemma api_classified:
  assumes "Fetch rq \<in> set (fst (api_try rt w req))"
  shows "fetch_text w rq = Inl e \<Longrightarrow>
           snd (api_submit rt w req) = sendHtml_api rt (failure (returnTo_of req) ''Server error'')"
    and "fetch_text w rq = Inr raw \<Longrightarrow> JSON_parse rt raw = None \<Longrightarrow>
           snd (api_try rt w req) = Inr (failure (returnTo_of req) ''API returned non-JSON'')"
    and "fetch_text w rq = Inr raw \<Longrightarrow> JSON_parse rt raw = Some json \<Longrightarrow>
           truthy (length_of (userErrors json)) \<Longrightarrow>
           snd (api_try rt w req) = Inr (failure (returnTo_of req) ''Validation error'')"
    and "fetch_text w rq = Inr raw \<Longrightarrow> JSON_parse rt raw = Some json \<Longrightarrow>
           \<not> truthy (length_of (userErrors json)) \<Longrightarrow>
           snd (api_try rt w req) = Inr (success (returnTo_of req) (created_id json))"
  using api_try_after_fetch [OF assms]
  by (simp_all add: after_fetch_def api_submit_def respond_exn)

subsection \<open>The scenarios, run\<close>

lemma web_try_forward:
  assumes "truthy (shop_of req)" "read_fields rt (body_of req) = Inr f"
    "productGid f = Some gid" "gid \<noteq> []" "\<not> rating_invalid (rating f)"
    "session_findFirst w (shop_of req) = Inr (Some found)" "accessToken found \<noteq> []"
    "ToString rt (shop_of req) = Inr sh"
  shows "web_try rt w req =
           ([FindSession (shop_of req),
             Fetch (graphql_request rt sh (accessToken found) mutation_web
                      (variables rt gid f (Date_now w)))],
            case fetch_text w (graphql_request rt sh (accessToken found) mutation_web
                      (variables rt gid f (Date_now w))) of
              Inl e \<Rightarrow> Inl e
            | Inr raw \<Rightarrow> Inr (after_fetch rt (returnTo_of req) raw))"
  using assms
  by (simp add: web_try_def call_remote_def interpolate_def Let_def split: sum.splits)

lemma api_try_forward:
  assumes "truthy (shop_of req)" "dev_credential w (shop_of req) = Some devToken"
    "read_fields rt (body_of req) = Inr f"
    "productGid f = Some gid" "gid \<noteq> []" "\<not> rating_invalid (rating f)"
    "ToString rt (shop_of req) = Inr sh"
  shows "api_try rt w req =
           ([Fetch (graphql_request rt sh devToken mutation_api
                      (variables rt gid f (Date_now w)))],
            case fetch_text w (graphql_request rt sh devToken mutation_api
                      (variables rt gid f (Date_now w))) of
              Inl e \<Rightarrow> Inl e
            | Inr raw \<Rightarrow> Inr (after_fetch rt (returnTo_of req) raw))"
  using assms
  by (simp add: api_try_def call_remote_def interpolate_def Let_def split: sum.splits)

lemma submission_parts:
  "shop_of (submission shop product stars) = (if shop = [] then Str [] else Str shop)"
  "body_of (submission shop product stars) = Obj [(''product_id'', product), (''rating'', stars)]"
  "returnTo_of (submission shop product stars) = Str ''/''"
  by (simp_all add: submission_def shop_of_def body_of_def returnTo_of_def get_def or_else_def
        truthy_def nullish_def)

lemma deployment_parts:
  "session_findFirst (deployment remote) (Str ''shop.example'') = Inr (Some \<lparr>accessToken = ''offline-token''\<rparr>)"
  "dev_credential (deployment remote) (Str ''shop.example'') = Some ''dev-token''"
  "fetch_text (deployment remote) = remote"
  "Date_now (deployment remote) = 1762041600000"
  by (simp_all add: deployment_def dev_credential_def)

lemma fields_42_5:
  "read_fields js (Obj [(''product_id'', Str ''42''), (''rating'', Str ''5'')])
     = Inr (plain_fields ''gid://shopify/Product/42'' (Fin 5))"
  by code_simp

lemma rating_5: "\<not> rating_invalid (Fin 5)"
  by code_simp

lemma scenario_web:
  "web_try js (deployment remote) (submission ''shop.example'' (Str ''42'') (Str ''5'')) =
     ([FindSession (Str ''shop.example''),
       Fetch (graphql_request js ''shop.example'' ''offline-token'' mutation_web
                (variables js ''gid://shopify/Product/42''
                   (plain_fields ''gid://shopify/Product/42'' (Fin 5)) 1762041600000))],
      case remote (graphql_request js ''shop.example'' ''offline-token'' mutation_web
                (variables js ''gid://shopify/Product/42''
                   (plain_fields ''gid://shopify/Product/42'' (Fin 5)) 1762041600000)) of
        Inl e \<Rightarrow> Inl e
      | Inr raw \<Rightarrow> Inr (after_fetch js (Str ''/'') raw))"
  using web_try_forward [of "submission ''shop.example'' (Str ''42'') (Str ''5'')" js
      "plain_fields ''gid://shopify/Product/42'' (Fin 5)" "''gid://shopify/Product/42''"
      "deployment remote" "\<lparr>accessToken = ''offline-token''\<rparr>" "''shop.example''"]
  by (simp add: submission_parts deployment_parts fields_42_5 rating_5 truthy_def plain_fields_def
        cong: sum.case_cong)

lemma scenario_api:
  "api_try js (deployment remote) (submission ''shop.example'' (Str ''42'') (Str ''5'')) =
     ([Fetch (graphql_request js ''shop.example'' ''dev-token'' mutation_api
                (variables js ''gid://shopify/Product/42''
                   (plain_fields ''gid://shopify/Product/42'' (Fin 5)) 1762041600000))],
      case remote (graphql_request js ''shop.example'' ''dev-token'' mutation_api
                (variables js ''gid://shopify/Product/42''
                   (plain_fields ''gid://shopify/Product/42'' (Fin 5)) 1762041600000)) of
        Inl e \<Rightarrow> Inl e
      | Inr raw \<Rightarrow> Inr (after_fetch js (Str ''/'') raw))"
  using api_try_forward [of "submission ''shop.example'' (Str ''42'') (Str ''5'')"
      "deployment remote" "''dev-token''" js
      "plain_fields ''gid://shopify/Product/42'' (Fin 5)" "''gid://shopify/Product/42''"
      "''shop.example''"]
  by (simp add: submission_parts deployment_parts fields_42_5 rating_5 truthy_def plain_fields_def
        cong: sum.case_cong)

subsection \<open>The remote answer\<close>

lemma answer_read:
  "map_of d ''data'' = Some (Obj m) \<Longrightarrow> map_of m ''metaobjectCreate'' = Some (Obj c) \<Longrightarrow>
   map_of c ''userErrors'' = Some (Arr xs) \<Longrightarrow> userErrors (Obj d) = Arr xs"
  "map_of d ''data'' = Some (Obj m) \<Longrightarrow> map_of m ''metaobjectCreate'' = Some (Obj c) \<Longrightarrow>
   map_of c ''userErrors'' = None \<Longrightarrow> userErrors (Obj d) = Arr []"
  "map_of d ''data'' = Some (Obj m) \<Longrightarrow> map_of m ''metaobjectCreate'' = Some (Obj c) \<Longrightarrow>
   map_of c ''metaobject'' = Some (Obj e) \<Longrightarrow> map_of e ''id'' = Some i \<Longrightarrow>
   created_id (Obj d) = i"
  "map_of d ''data'' = Some (Obj m) \<Longrightarrow> map_of m ''metaobjectCreate'' = Some (Obj c) \<Longrightarrow>
   map_of c ''metaobject'' = Some Null \<Longrightarrow> created_id (Obj d) = Undefined"
  "map_of d ''data'' = None \<Longrightarrow> userErrors (Obj d) = Arr []"
  "map_of d ''data'' = None \<Longrightarrow> created_id (Obj d) = Undefined"
  "userErrors Null = Arr []"
  "created_id Null = Undefined"
  by (simp_all add: userErrors_def created_id_def get_def nullish_def)

lemma throttled_parsed:
  "js_JSON_parse throttled_answer
     = Some (Obj [(''errors'', Arr [Obj [(''message'', Str ''Throttled'')]])])"
  by code_simp

lemma throttled_after:
  "after_fetch js r throttled_answer
     = \<lparr>ok = True, returnTo = r, review_id = Undefined, message = None\<rparr>"
  by (simp add: after_fetch_def throttled_parsed answer_read nonempty_list_truthy success_def)

lemma thanks_page_api:
  \<open>sendHtml_api js \<lparr>ok = True, returnTo = Str ''/'', review_id = Undefined, message = None\<rparr> =
     Inr \<lparr>status = 200, content_type = ''text/html'',
          html = ''<!doctype html>\<newline><meta charset="utf-8"><style>body{font:16px system-ui;padding:24px}</style>\<newline><h1>Thanks for your review!</h1>\<newline>\<newline><p><a href="/">Continue</a></p>\<newline><script>location.replace("/");</script>''\<rparr>\<close>
  by code_simp

lemma fetch_given:
  "fetch_text (deployment remote) = remote"
  "answers raw rq = Inr raw"
  by (simp_all add: deployment_def answers_def)

text \<open>
  Claim C1, as stated: a parsed answer without a nonempty error list is a success
  carrying the created entity's identifier. It fails: the identifier is optional. A parsed
  answer that holds no \<open>userErrors\<close> and no entity, such as the answer
  \<^verbatim>\<open>{"errors":[{"message":"Throttled"}]}\<close> to a refused call, is handed over as
  \<open>{ok: true, id: undefined}\<close>, and the page sent thanks for the review and shows no
  identifier.
\<close>

theorem c1_success_without_identifier:
  \<open>throttled_answer = ''{"errors":[{"message":"Throttled"}]}''
   \<and> js_JSON_parse throttled_answer
       = Some (Obj [(''errors'', Arr [Obj [(''message'', Str ''Throttled'')]])])
   \<and> api_try js (deployment (answers throttled_answer))
          (submission ''shop.example'' (Str ''42'') (Str ''5''))
       = ([Fetch (graphql_request js ''shop.example'' ''dev-token'' mutation_api
                    (variables js ''gid://shopify/Product/42''
                       (plain_fields ''gid://shopify/Product/42'' (Fin 5)) 1762041600000))],
          Inr \<lparr>ok = True, returnTo = Str ''/'', review_id = Undefined, message = None\<rparr>)
   \<and> snd (api_submit js (deployment (answers throttled_answer))
          (submission ''shop.example'' (Str ''42'') (Str ''5'')))
       = Inr \<lparr>status = 200, content_type = ''text/html'',
          html = ''<!doctype html>\<newline><meta charset="utf-8"><style>body{font:16px system-ui;padding:24px}</style>\<newline><h1>Thanks for your review!</h1>\<newline>\<newline><p><a href="/">Continue</a></p>\<newline><script>location.replace("/");</script>''\<rparr>\<close>
proof -
  let ?w = "deployment (answers throttled_answer)"
  let ?req = "submission ''shop.example'' (Str ''42'') (Str ''5'')"
  have tried: "api_try js ?w ?req
       = ([Fetch (graphql_request js ''shop.example'' ''dev-token'' mutation_api
                    (variables js ''gid://shopify/Product/42''
                       (plain_fields ''gid://shopify/Product/42'' (Fin 5)) 1762041600000))],
          Inr \<lparr>ok = True, returnTo = Str ''/'', review_id = Undefined, message = None\<rparr>)"
    by (simp add: scenario_api answers_def throttled_after)
  have sent: "snd (api_submit js ?w ?req)
      = sendHtml_api js \<lparr>ok = True, returnTo = Str ''/'', review_id = Undefined, message = None\<rparr>"
    by (simp add: api_submit_def respond_def tried thanks_page_api)
  from tried sent throttled_parsed show ?thesis
    by (simp add: thanks_page_api throttled_answer_def [symmetric])
qed

text \<open>
  Claim C1, amended: in both handlers, once the remote call has been issued, its answer
  decides the outcome. A rejected call (a network-level exception) gives the page of
  \<open>{ok: false, message: "Server error"}\<close>; a text that does not parse gives
  \<open>{ok: false, message: "API returned non-JSON"}\<close>; a parsed answer whose \<open>userErrors\<close> has
  a truthy length (for a list: is not empty) gives \<open>{ok: false, message: "Validation error"}\<close>,
  a literal in which nothing of the remote field and message pairs appears; any other
  parsed answer gives \<open>{ok: true, id}\<close>, where \<open>id\<close> is what the answer holds at
  \<open>data.metaobjectCreate.metaobject.id\<close>: the created entity's identifier when the answer
  has one, and \<^verbatim>\<open>undefined\<close> when it has none. The error list is what the answer holds at
  \<open>data.metaobjectCreate.userErrors\<close>, and the empty list when it holds nothing there.
\<close>

theorem c1_remote_classification:
  "(Fetch rq \<in> set (fst (web_try rt w req)) \<longrightarrow>
      (\<forall>e. fetch_text w rq = Inl e \<longrightarrow>
         snd (web_submit rt w req)
           = sendHtml_web rt \<lparr>ok = False, returnTo = returnTo_of req, review_id = Undefined,
                               message = Some ''Server error''\<rparr>)
    \<and> (\<forall>raw. fetch_text w rq = Inr raw \<longrightarrow>
         (JSON_parse rt raw = None \<longrightarrow>
            snd (web_try rt w req)
              = Inr \<lparr>ok = False, returnTo = returnTo_of req, review_id = Undefined,
                     message = Some ''API returned non-JSON''\<rparr>)
       \<and> (\<forall>json. JSON_parse rt raw = Some json \<longrightarrow>
            (truthy (length_of (userErrors json)) \<longrightarrow>
               snd (web_try rt w req)
                 = Inr \<lparr>ok = False, returnTo = returnTo_of req, review_id = Undefined,
                        message = Some ''Validation error''\<rparr>)
          \<and> (\<not> truthy (length_of (userErrors json)) \<longrightarrow>
               snd (web_try rt w req)
                 = Inr \<lparr>ok = True, returnTo = returnTo_of req, review_id = created_id json,
                        message = None\<rparr>))))
   \<and> (Fetch rq \<in> set (fst (api_try rt w req)) \<longrightarrow>
      (\<forall>e. fetch_text w rq = Inl e \<longrightarrow>
         snd (api_submit rt w req)
           = sendHtml_api rt \<lparr>ok = False, returnTo = returnTo_of req, review_id = Undefined,
                               message = Some ''Server error''\<rparr>)
    \<and> (\<forall>raw. fetch_text w rq = Inr raw \<longrightarrow>
         (JSON_parse rt raw = None \<longrightarrow>
            snd (api_try rt w req)
              = Inr \<lparr>ok = False, returnTo = returnTo_of req, review_id = Undefined,
                     message = Some ''API returned non-JSON''\<rparr>)
       \<and> (\<forall>json. JSON_parse rt raw = Some json \<longrightarrow>
            (truthy (length_of (userErrors json)) \<longrightarrow>
               snd (api_try rt w req)
                 = Inr \<lparr>ok = False, returnTo = returnTo_of req, review_id = Undefined,
                        message = Some ''Validation error''\<rparr>)
          \<and> (\<not> truthy (length_of (userErrors json)) \<longrightarrow>
               snd (api_try rt w req)
                 = Inr \<lparr>ok = True, returnTo = returnTo_of req, review_id = created_id json,
                        message = None\<rparr>))))
   \<and> (\<forall>j xs. userErrors j = Arr xs \<longrightarrow> truthy (length_of (userErrors j)) = (xs \<noteq> []))
   \<and> (map_of d ''data'' = Some (Obj m) \<and> map_of m ''metaobjectCreate'' = Some (Obj c) \<longrightarrow>
        (map_of c ''userErrors'' = Some (Arr xs) \<longrightarrow> userErrors (Obj d) = Arr xs)
      \<and> (map_of c ''userErrors'' = None \<longrightarrow> userErrors (Obj d) = Arr [])
      \<and> (map_of c ''metaobject'' = Some (Obj e) \<and> map_of e ''id'' = Some i \<longrightarrow>
           created_id (Obj d) = i)
      \<and> (map_of c ''metaobject'' = Some Null \<longrightarrow> created_id (Obj d) = Undefined))
   \<and> (map_of d ''data'' = None \<longrightarrow>
        userErrors (Obj d) = Arr [] \<and> created_id (Obj d) = Undefined)
   \<and> userErrors Null = Arr []
   \<and> created_id Null = Undefined"
proof -
  have web: "Fetch rq \<in> set (fst (web_try rt w req)) \<longrightarrow>
      (\<forall>e. fetch_text w rq = Inl e \<longrightarrow>
         snd (web_submit rt w req)
           = sendHtml_web rt \<lparr>ok = False, returnTo = returnTo_of req, review_id = Undefined,
                               message = Some ''Server error''\<rparr>)
    \<and> (\<forall>raw. fetch_text w rq = Inr raw \<longrightarrow>
         (JSON_parse rt raw = None \<longrightarrow>
            snd (web_try rt w req)
              = Inr \<lparr>ok = False, returnTo = returnTo_of req, review_id = Undefined,
                     message = Some ''API returned non-JSON''\<rparr>)
       \<and> (\<forall>json. JSON_parse rt raw = Some json \<longrightarrow>
            (truthy (length_of (userErrors json)) \<longrightarrow>
               snd (web_try rt w req)
                 = Inr \<lparr>ok = False, returnTo = returnTo_of req, review_id = Undefined,
                        message = Some ''Validation error''\<rparr>)
          \<and> (\<not> truthy (length_of (userErrors json)) \<longrightarrow>
               snd (web_try rt w req)
                 = Inr \<lparr>ok = True, returnTo = returnTo_of req, review_id = created_id json,
                        message = None\<rparr>)))"
    using web_classified [of rq rt w req] by (simp add: failure_def success_def)
  have api: "Fetch rq \<in> set (fst (api_try rt w req)) \<longrightarrow>
      (\<forall>e. fetch_text w rq = Inl e \<longrightarrow>
         snd (api_submit rt w req)
           = sendHtml_api rt \<lparr>ok = False, returnTo = returnTo_of req, review_id = Undefined,
                               message = Some ''Server error''\<rparr>)
    \<and> (\<forall>raw. fetch_text w rq = Inr raw \<longrightarrow>
         (JSON_parse rt raw = None \<longrightarrow>
            snd (api_try rt w req)
              = Inr \<lparr>ok = False, returnTo = returnTo_of req, review_id = Undefined,
                     message = Some ''API returned non-JSON''\<rparr>)
       \<and> (\<forall>json. JSON_parse rt raw = Some json \<longrightarrow>
            (truthy (length_of (userErrors json)) \<longrightarrow>
               snd (api_try rt w req)
                 = Inr \<lparr>ok = False, returnTo = returnTo_of req, review_id = Undefined,
                        message = Some ''Validation error''\<rparr>)
          \<and> (\<not> truthy (length_of (userErrors json)) \<longrightarrow>
               snd (api_try rt w req)
                 = Inr \<lparr>ok = True, returnTo = returnTo_of req, review_id = created_id json,
                        message = None\<rparr>)))"
    using api_classified [of rq rt w req] by (simp add: failure_def success_def)
  have list: "\<forall>j xs. userErrors j = Arr xs \<longrightarrow> truthy (length_of (userErrors j)) = (xs \<noteq> [])"
    by (simp add: nonempty_list_truthy)
  have inside: "map_of d ''data'' = Some (Obj m) \<and> map_of m ''metaobjectCreate'' = Some (Obj c) \<longrightarrow>
        (map_of c ''userErrors'' = Some (Arr xs) \<longrightarrow> userErrors (Obj d) = Arr xs)
      \<and> (map_of c ''userErrors'' = None \<longrightarrow> userErrors (Obj d) = Arr [])
      \<and> (map_of c ''metaobject'' = Some (Obj e) \<and> map_of e ''id'' = Some i \<longrightarrow>
           created_id (Obj d) = i)
      \<and> (map_of c ''metaobject'' = Some Null \<longrightarrow> created_id (Obj d) = Undefined)"
    by (simp add: answer_read)
  have outside: "map_of d ''data'' = None \<longrightarrow>
        userErrors (Obj d) = Arr [] \<and> created_id (Obj d) = Undefined"
    by (simp add: answer_read)
  from web api list inside outside answer_read(7) answer_read(8) show ?thesis
    by (intro conjI)
qed

theorem c1_remote_classification_witness:
  "snd (web_try js (deployment (answers rejected_answer))
          (submission ''shop.example'' (Str ''42'') (Str ''5'')))
     = Inr \<lparr>ok = False, returnTo = Str ''/'', review_id = Undefined,
            message = Some ''Validation error''\<rparr>
   \<and> snd (web_try js (deployment (answers created_answer))
          (submission ''shop.example'' (Str ''42'') (Str ''5'')))
     = Inr \<lparr>ok = True, returnTo = Str ''/'', review_id = Str ''gid://x/Metaobject/1'',
            message = None\<rparr>
   \<and> snd (api_try js (deployment (answers gateway_answer))
          (submission ''shop.example'' (Str ''42'') (Str ''5'')))
     = Inr \<lparr>ok = False, returnTo = Str ''/'', review_id = Undefined,
            message = Some ''API returned non-JSON''\<rparr>
   \<and> snd (api_submit js (deployment (\<lambda>rq. Inl NetworkError))
          (submission ''shop.example'' (Str ''42'') (Str ''5'')))
     = sendHtml_api js \<lparr>ok = False, returnTo = Str ''/'', review_id = Undefined,
                         message = Some ''Server error''\<rparr>"
proof -
  let ?req = "submission ''shop.example'' (Str ''42'') (Str ''5'')"
  let ?f = "plain_fields ''gid://shopify/Product/42'' (Fin 5)"
  let ?web = "graphql_request js ''shop.example'' ''offline-token'' mutation_web
                (variables js ''gid://shopify/Product/42'' ?f 1762041600000)"
  let ?api = "graphql_request js ''shop.example'' ''dev-token'' mutation_api
                (variables js ''gid://shopify/Product/42'' ?f 1762041600000)"
  let ?errors = "[Obj [(''field'', Str ''rating''), (''message'', Str ''bad'')]]"
  let ?rejected = "[(''metaobject'', Null), (''userErrors'', Arr ?errors)]"
  let ?entity = "[(''id'', Str ''gid://x/Metaobject/1'')]"
  let ?created = "[(''metaobject'', Obj ?entity), (''userErrors'', Arr [])]"
  have rejected: "JSON_parse js rejected_answer
      = Some (Obj [(''data'', Obj [(''metaobjectCreate'', Obj ?rejected)])])"
    by code_simp
  have created: "JSON_parse js created_answer
      = Some (Obj [(''data'', Obj [(''metaobjectCreate'', Obj ?created)])])"
    by code_simp
  have gateway: "JSON_parse js gateway_answer = None"
    by code_simp
  have sent_web: "Fetch ?web \<in> set (fst (web_try js (deployment remote) ?req))" for remote
    by (simp add: scenario_web)
  have sent_api: "Fetch ?api \<in> set (fst (api_try js (deployment remote) ?req))" for remote
    by (simp add: scenario_api)
  note facts = fetch_given submission_parts
  note c1 = c1_remote_classification [where rt = js and req = ?req]
  have errs: "userErrors (Obj [(''data'', Obj [(''metaobjectCreate'', Obj ?rejected)])]) = Arr ?errors"
    using c1 [where d = "[(''data'', Obj [(''metaobjectCreate'', Obj ?rejected)])]"
        and m = "[(''metaobjectCreate'', Obj ?rejected)]" and c = ?rejected and xs = ?errors]
    by simp
  have some_errors:
    "truthy (length_of (userErrors (Obj [(''data'', Obj [(''metaobjectCreate'', Obj ?rejected)])])))"
    by (simp add: errs nonempty_list_truthy)
  have none: "userErrors (Obj [(''data'', Obj [(''metaobjectCreate'', Obj ?created)])]) = Arr []"
    using c1 [where d = "[(''data'', Obj [(''metaobjectCreate'', Obj ?created)])]"
        and m = "[(''metaobjectCreate'', Obj ?created)]" and c = ?created and xs = "[]"]
    by simp
  have no_errors:
    "\<not> truthy (length_of (userErrors (Obj [(''data'', Obj [(''metaobjectCreate'', Obj ?created)])])))"
    by (simp add: none nonempty_list_truthy)
  have ident: "created_id (Obj [(''data'', Obj [(''metaobjectCreate'', Obj ?created)])])
      = Str ''gid://x/Metaobject/1''"
    using c1 [where d = "[(''data'', Obj [(''metaobjectCreate'', Obj ?created)])]"
        and m = "[(''metaobjectCreate'', Obj ?created)]" and c = ?created and e = ?entity
        and i = "Str ''gid://x/Metaobject/1''"]
    by simp
  have a: "snd (web_try js (deployment (answers rejected_answer)) ?req)
      = Inr \<lparr>ok = False, returnTo = Str ''/'', review_id = Undefined,
             message = Some ''Validation error''\<rparr>"
    using c1 [where rq = ?web and w = "deployment (answers rejected_answer)"]
      sent_web rejected some_errors
    by (simp add: facts)
  have b: "snd (web_try js (deployment (answers created_answer)) ?req)
      = Inr \<lparr>ok = True, returnTo = Str ''/'', review_id = Str ''gid://x/Metaobject/1'',
             message = None\<rparr>"
    using c1 [where rq = ?web and w = "deployment (answers created_answer)"]
      sent_web created no_errors
    by (simp add: facts ident)
  have c: "snd (api_try js (deployment (answers gateway_answer)) ?req)
      = Inr \<lparr>ok = False, returnTo = Str ''/'', review_id = Undefined,
             message = Some ''API returned non-JSON''\<rparr>"
    using c1 [where rq = ?api and w = "deployment (answers gateway_answer)"]
      sent_api gateway
    by (simp add: facts)
  have d: "snd (api_submit js (deployment (\<lambda>rq. Inl NetworkError)) ?req)
      = sendHtml_api js \<lparr>ok = False, returnTo = Str ''/'', review_id = Undefined,
                          message = Some ''Server error''\<rparr>"
    using c1 [where rq = ?api and w = "deployment (\<lambda>rq. Inl NetworkError)"]
      sent_api
    by (simp add: facts)
  from a b c d show ?thesis
    by (simp only: simp_thms)
qed

subsection \<open>The checks, one by one\<close>

lemma isInteger_Fin: "isInteger (Fin q) = (q \<in> \<int>)"
proof
  assume "isInteger (Fin q)"
  then have d: "snd (quotient_of q) = 1"
    by (simp add: isInteger_def)
  obtain a b where ab: "quotient_of q = (a, b)"
    by (cases "quotient_of q")
  with d have "q = of_int a"
    using quotient_of_div [OF ab] by simp
  then show "q \<in> \<int>"
    by simp
next
  assume "q \<in> \<int>"
  then obtain z where "q = of_int z"
    by (auto elim: Ints_cases)
  then show "isInteger (Fin q)"
    by (simp add: isInteger_def)
qed

lemma rating_valid_iff: "(\<not> rating_invalid n) = (n \<in> {Fin 1, Fin 2, Fin 3, Fin 4, Fin 5})"
proof (cases n)
  case (Fin q)
  show ?thesis
  proof
    assume "\<not> rating_invalid n"
    with Fin have int: "q \<in> \<int>" and lo: "1 \<le> q" and hi: "q \<le> 5"
      by (auto simp: rating_invalid_def isInteger_Fin less_num_def)
    from int obtain z where z: "q = of_int z"
      by (auto elim: Ints_cases)
    with lo hi have "1 \<le> z" "z \<le> 5"
      by simp_all
    then have "z = 1 \<or> z = 2 \<or> z = 3 \<or> z = 4 \<or> z = 5"
      by arith
    with z Fin show "n \<in> {Fin 1, Fin 2, Fin 3, Fin 4, Fin 5}"
      by auto
  next
    assume "n \<in> {Fin 1, Fin 2, Fin 3, Fin 4, Fin 5}"
    then show "\<not> rating_invalid n"
      by (auto simp: rating_invalid_def isInteger_Fin less_num_def)
  qed
qed (simp_all add: rating_invalid_def isInteger_def)

lemma web_try_missing_shop:
  "\<not> truthy (shop_of req) \<Longrightarrow>
   web_try rt w req = ([], Inr (failure (returnTo_of req) ''Missing shop''))"
  by (simp add: web_try_def)

lemma web_try_invalid_product:
  "truthy (shop_of req) \<Longrightarrow> read_fields rt (body_of req) = Inr f \<Longrightarrow>
   productGid f = None \<or> productGid f = Some [] \<Longrightarrow>
   web_try rt w req = ([], Inr (failure (returnTo_of req) ''Invalid product id''))"
  by (auto simp: web_try_def)

lemma web_try_invalid_rating:
  "truthy (shop_of req) \<Longrightarrow> read_fields rt (body_of req) = Inr f \<Longrightarrow>
   productGid f = Some g \<Longrightarrow> g \<noteq> [] \<Longrightarrow> rating_invalid (rating f) \<Longrightarrow>
   web_try rt w req = ([], Inr (failure (returnTo_of req) ''Rating must be 1..5''))"
  by (simp add: web_try_def)

lemma web_try_unauthorized:
  "truthy (shop_of req) \<Longrightarrow> read_fields rt (body_of req) = Inr f \<Longrightarrow>
   productGid f = Some g \<Longrightarrow> g \<noteq> [] \<Longrightarrow> \<not> rating_invalid (rating f) \<Longrightarrow>
   session_findFirst w (shop_of req) = Inr None
     \<or> (\<exists>found. session_findFirst w (shop_of req) = Inr (Some found) \<and> accessToken found = []) \<Longrightarrow>
   web_try rt w req =
     ([FindSession (shop_of req)], Inr (failure (returnTo_of req) ''App not authorized for this shop''))"
  by (auto simp: web_try_def)

lemma api_try_missing_shop:
  "\<not> truthy (shop_of req) \<Longrightarrow>
   api_try rt w req = ([], Inr (failure (returnTo_of req) ''Missing shop''))"
  by (simp add: api_try_def)

lemma api_try_unauthorized:
  "truthy (shop_of req) \<Longrightarrow> dev_credential w (shop_of req) = None \<Longrightarrow>
   api_try rt w req = ([], Inr (failure (returnTo_of req) ''App not authorized for this shop''))"
  by (simp add: api_try_def)

lemma api_try_invalid_product:
  "truthy (shop_of req) \<Longrightarrow> dev_credential w (shop_of req) = Some devToken \<Longrightarrow>
   read_fields rt (body_of req) = Inr f \<Longrightarrow>
   productGid f = None \<or> productGid f = Some [] \<Longrightarrow>
   api_try rt w req = ([], Inr (failure (returnTo_of req) ''Invalid product id''))"
  by (auto simp: api_try_def)

lemma api_try_invalid_rating:
  "truthy (shop_of req) \<Longrightarrow> dev_credential w (shop_of req) = Some devToken \<Longrightarrow>
   read_fields rt (body_of req) = Inr f \<Longrightarrow>
   productGid f = Some g \<Longrightarrow> g \<noteq> [] \<Longrightarrow> rating_invalid (rating f) \<Longrightarrow>
   api_try rt w req = ([], Inr (failure (returnTo_of req) ''Rating must be 1..5''))"
  by (simp add: api_try_def)

lemma no_fetch_web:
  "session_findFirst w (shop_of req) = Inr None
     \<or> (\<exists>found. session_findFirst w (shop_of req) = Inr (Some found) \<and> accessToken found = [])
   \<Longrightarrow> Fetch rq \<notin> set (fst (web_try rt w req))"
  using web_try_fetch [of rq rt w req] by auto

lemma no_fetch_api:
  "dev_credential w (shop_of req) = None \<Longrightarrow> fst (api_try rt w req) = []"
  by (simp add: api_try_def Let_def)

lemma sendHtml_web_failure_exn:
  "sendHtml_web rt (failure r m) = Inl e \<Longrightarrow> sendHtml_web rt (failure r m') = Inl e"
  by (auto simp: sendHtml_web_def failure_def id_part_def truthy_def Let_def split: sum.splits)

lemma sendHtml_api_failure_exn:
  "sendHtml_api rt (failure r m) = Inl e \<Longrightarrow> sendHtml_api rt (failure r m') = Inl e"
  by (auto simp: sendHtml_api_def failure_def id_part_def truthy_def Let_def split: sum.splits)

lemma web_submit_failure:
  "web_try rt w req = (evs, Inr (failure (returnTo_of req) m)) \<Longrightarrow>
   web_submit rt w req = (evs, sendHtml_web rt (failure (returnTo_of req) m))"
  by (auto simp: web_submit_def respond_def split: sum.splits dest: sendHtml_web_failure_exn)

lemma api_submit_failure:
  "api_try rt w req = (evs, Inr (failure (returnTo_of req) m)) \<Longrightarrow>
   api_submit rt w req = (evs, sendHtml_api rt (failure (returnTo_of req) m))"
  by (auto simp: api_submit_def respond_def split: sum.splits dest: sendHtml_api_failure_exn)

lemma read_fields_rating:
  "read_fields rt b = Inr f \<Longrightarrow> ToNumber rt (get b ''rating'') = Inr (rating f)"
  by (auto simp: read_fields_def split: sum.splits)

lemma read_fields_product:
  "read_fields rt b = Inr f \<Longrightarrow>
   toProductGid rt (nullish (get b ''product_id'') (get b ''productId'')) = Inr (productGid f)"
  by (auto simp: read_fields_def split: sum.splits)

lemma fields_42_0:
  "read_fields js (Obj [(''product_id'', Str ''42''), (''rating'', Str ''0'')])
     = Inr (plain_fields ''gid://shopify/Product/42'' (Fin 0))"
  by code_simp

lemma fields_abc_5:
  "read_fields js (Obj [(''product_id'', Str ''abc''), (''rating'', Str ''5'')])
     = Inr ((plain_fields [] (Fin 5))\<lparr>productGid := None\<rparr>)"
  by code_simp

lemma rating_0: "rating_invalid (Fin 0)"
  by code_simp

lemma other_shop:
  "shop \<noteq> ''shop.example'' \<Longrightarrow> session_findFirst (deployment remote) (Str shop) = Inr None"
  "shop \<noteq> ''shop.example'' \<Longrightarrow> dev_credential (deployment remote) (Str shop) = None"
  by (simp_all add: deployment_def dev_credential_def)

text \<open>
  Claim C2, as stated: in every submission the checks run in the order tenant, product
  reference, rating, credential, and the first failing one is reported. It fails in the
  serverless entry, which looks at the credential right after the tenant: a submission for
  a shop it has no token for, with a valid product reference and the rating 0, is answered
  with the authorization failure, not with the rating failure.
\<close>

theorem c2_unauthorized_before_rating:
  "read_fields js (body_of (submission ''other.example'' (Str ''42'') (Str ''0'')))
     = Inr (plain_fields ''gid://shopify/Product/42'' (Fin 0))
   \<and> rating_invalid (Fin 0)
   \<and> api_try js (deployment (\<lambda>rq. Inl NetworkError))
        (submission ''other.example'' (Str ''42'') (Str ''0''))
      = ([], Inr (failure (Str ''/'') ''App not authorized for this shop''))"
  using api_try_unauthorized [of "submission ''other.example'' (Str ''42'') (Str ''0'')"
      "deployment (\<lambda>rq. Inl NetworkError)" js]
  by (simp add: submission_parts other_shop fields_42_0 rating_0 truthy_def)

text \<open>
  Claim C2, amended: each handler evaluates its checks in a fixed order and reports the
  first one that fails, as long as reading the fields raises no exception. In
  \<^verbatim>\<open>web/index.ts\<close> the order is: missing tenant, invalid product reference, invalid
  rating, missing credential; a submission that fails one of the first three never
  reaches the credential lookup. In \<^verbatim>\<open>api/index.ts\<close> the order is: missing tenant,
  missing credential (the development token for the shop), invalid product reference,
  invalid rating. In both, no submission that fails a check reaches the network call, and
  a submission with a missing tenant and an invalid rating is reported as the missing
  tenant.
\<close>

theorem c2_check_order:
  "(\<not> truthy (shop_of req) \<longrightarrow>
      web_try rt w req = ([], Inr (failure (returnTo_of req) ''Missing shop''))
      \<and> api_try rt w req = ([], Inr (failure (returnTo_of req) ''Missing shop'')))
   \<and> (truthy (shop_of req) \<and> read_fields rt (body_of req) = Inr f \<longrightarrow>
        (productGid f = None \<or> productGid f = Some [] \<longrightarrow>
           web_try rt w req = ([], Inr (failure (returnTo_of req) ''Invalid product id'')))
      \<and> (productGid f = Some g \<and> g \<noteq> [] \<and> rating_invalid (rating f) \<longrightarrow>
           web_try rt w req = ([], Inr (failure (returnTo_of req) ''Rating must be 1..5'')))
      \<and> (productGid f = Some g \<and> g \<noteq> [] \<and> \<not> rating_invalid (rating f)
          \<and> (session_findFirst w (shop_of req) = Inr None
              \<or> (\<exists>found. session_findFirst w (shop_of req) = Inr (Some found)
                    \<and> accessToken found = [])) \<longrightarrow>
           web_try rt w req =
             ([FindSession (shop_of req)],
              Inr (failure (returnTo_of req) ''App not authorized for this shop''))))
   \<and> (truthy (shop_of req) \<and> dev_credential w (shop_of req) = None \<longrightarrow>
        api_try rt w req =
          ([], Inr (failure (returnTo_of req) ''App not authorized for this shop'')))
   \<and> (truthy (shop_of req) \<and> dev_credential w (shop_of req) = Some devToken
        \<and> read_fields rt (body_of req) = Inr f \<longrightarrow>
        (productGid f = None \<or> productGid f = Some [] \<longrightarrow>
           api_try rt w req = ([], Inr (failure (returnTo_of req) ''Invalid product id'')))
      \<and> (productGid f = Some g \<and> g \<noteq> [] \<and> rating_invalid (rating f) \<longrightarrow>
           api_try rt w req = ([], Inr (failure (returnTo_of req) ''Rating must be 1..5''))))"
proof -
  have tenant: "\<not> truthy (shop_of req) \<longrightarrow>
      web_try rt w req = ([], Inr (failure (returnTo_of req) ''Missing shop''))
      \<and> api_try rt w req = ([], Inr (failure (returnTo_of req) ''Missing shop''))"
    by (simp add: web_try_missing_shop api_try_missing_shop)
  have web: "truthy (shop_of req) \<and> read_fields rt (body_of req) = Inr f \<longrightarrow>
        (productGid f = None \<or> productGid f = Some [] \<longrightarrow>
           web_try rt w req = ([], Inr (failure (returnTo_of req) ''Invalid product id'')))
      \<and> (productGid f = Some g \<and> g \<noteq> [] \<and> rating_invalid (rating f) \<longrightarrow>
           web_try rt w req = ([], Inr (failure (returnTo_of req) ''Rating must be 1..5'')))
      \<and> (productGid f = Some g \<and> g \<noteq> [] \<and> \<not> rating_invalid (rating f)
          \<and> (session_findFirst w (shop_of req) = Inr None
              \<or> (\<exists>found. session_findFirst w (shop_of req) = Inr (Some found)
                    \<and> accessToken found = [])) \<longrightarrow>
           web_try rt w req =
             ([FindSession (shop_of req)],
              Inr (failure (returnTo_of req) ''App not authorized for this shop'')))"
    using web_try_invalid_product [of req rt f w] web_try_invalid_rating [of req rt f g w]
      web_try_unauthorized [of req rt f g w]
    by blast
  have gate: "truthy (shop_of req) \<and> dev_credential w (shop_of req) = None \<longrightarrow>
        api_try rt w req =
          ([], Inr (failure (returnTo_of req) ''App not authorized for this shop''))"
    by (simp add: api_try_unauthorized)
  have api: "truthy (shop_of req) \<and> dev_credential w (shop_of req) = Some devToken
        \<and> read_fields rt (body_of req) = Inr f \<longrightarrow>
        (productGid f = None \<or> productGid f = Some [] \<longrightarrow>
           api_try rt w req = ([], Inr (failure (returnTo_of req) ''Invalid product id'')))
      \<and> (productGid f = Some g \<and> g \<noteq> [] \<and> rating_invalid (rating f) \<longrightarrow>
           api_try rt w req = ([], Inr (failure (returnTo_of req) ''Rating must be 1..5'')))"
    using api_try_invalid_product [of req w devToken rt f]
      api_try_invalid_rating [of req w devToken rt f g]
    by blast
  from tenant web gate api show ?thesis
    by (intro conjI)
qed

theorem c2_check_order_witness:
  "web_try js (deployment (\<lambda>rq. Inl NetworkError)) (submission [] (Str ''42'') (Str ''0''))
     = ([], Inr (failure (Str ''/'') ''Missing shop''))
   \<and> api_try js (deployment (\<lambda>rq. Inl NetworkError)) (submission [] (Str ''42'') (Str ''0''))
     = ([], Inr (failure (Str ''/'') ''Missing shop''))
   \<and> web_try js (deployment (\<lambda>rq. Inl NetworkError))
        (submission ''other.example'' (Str ''abc'') (Str ''5''))
     = ([], Inr (failure (Str ''/'') ''Invalid product id''))
   \<and> web_try js (deployment (\<lambda>rq. Inl NetworkError))
        (submission ''other.example'' (Str ''42'') (Str ''0''))
     = ([], Inr (failure (Str ''/'') ''Rating must be 1..5''))
   \<and> web_try js (deployment (\<lambda>rq. Inl NetworkError))
        (submission ''other.example'' (Str ''42'') (Str ''5''))
     = ([FindSession (Str ''other.example'')],
        Inr (failure (Str ''/'') ''App not authorized for this shop''))
   \<and> api_try js (deployment (\<lambda>rq. Inl NetworkError))
        (submission ''other.example'' (Str ''abc'') (Str ''0''))
     = ([], Inr (failure (Str ''/'') ''App not authorized for this shop''))
   \<and> api_try js (deployment (\<lambda>rq. Inl NetworkError))
        (submission ''shop.example'' (Str ''abc'') (Str ''5''))
     = ([], Inr (failure (Str ''/'') ''Invalid product id''))
   \<and> api_try js (deployment (\<lambda>rq. Inl NetworkError))
        (submission ''shop.example'' (Str ''42'') (Str ''0''))
     = ([], Inr (failure (Str ''/'') ''Rating must be 1..5''))"
proof -
  let ?w = "deployment (\<lambda>rq. Inl NetworkError)"
  note parts = submission_parts deployment_parts other_shop truthy_def plain_fields_def
  note order = c2_check_order [where rt = js and w = ?w]
  have a: "web_try js ?w (submission [] (Str ''42'') (Str ''0''))
             = ([], Inr (failure (Str ''/'') ''Missing shop''))
           \<and> api_try js ?w (submission [] (Str ''42'') (Str ''0''))
             = ([], Inr (failure (Str ''/'') ''Missing shop''))"
    using order [where req = "submission [] (Str ''42'') (Str ''0'')"]
    by (simp add: parts)
  have b: "web_try js ?w (submission ''other.example'' (Str ''abc'') (Str ''5''))
             = ([], Inr (failure (Str ''/'') ''Invalid product id''))"
    using order [where req = "submission ''other.example'' (Str ''abc'') (Str ''5'')"
        and f = "(plain_fields [] (Fin 5))\<lparr>productGid := None\<rparr>"] fields_abc_5
    by (simp add: parts)
  have c: "web_try js ?w (submission ''other.example'' (Str ''42'') (Str ''0''))
             = ([], Inr (failure (Str ''/'') ''Rating must be 1..5''))"
    using order [where req = "submission ''other.example'' (Str ''42'') (Str ''0'')"
        and f = "plain_fields ''gid://shopify/Product/42'' (Fin 0)"
        and g = "''gid://shopify/Product/42''"] fields_42_0 rating_0
    by (simp add: parts)
  have d: "web_try js ?w (submission ''other.example'' (Str ''42'') (Str ''5''))
             = ([FindSession (Str ''other.example'')],
                Inr (failure (Str ''/'') ''App not authorized for this shop''))"
    using order [where req = "submission ''other.example'' (Str ''42'') (Str ''5'')"
        and f = "plain_fields ''gid://shopify/Product/42'' (Fin 5)"
        and g = "''gid://shopify/Product/42''"] fields_42_5 rating_5
    by (simp add: parts)
  have e: "api_try js ?w (submission ''other.example'' (Str ''abc'') (Str ''0''))
             = ([], Inr (failure (Str ''/'') ''App not authorized for this shop''))"
    using order [where req = "submission ''other.example'' (Str ''abc'') (Str ''0'')"]
    by (simp add: parts)
  have f: "api_try js ?w (submission ''shop.example'' (Str ''abc'') (Str ''5''))
             = ([], Inr (failure (Str ''/'') ''Invalid product id''))"
    using order [where req = "submission ''shop.example'' (Str ''abc'') (Str ''5'')"
        and f = "(plain_fields [] (Fin 5))\<lparr>productGid := None\<rparr>"
        and devToken = "''dev-token''"] fields_abc_5
    by (simp add: parts)
  have g: "api_try js ?w (submission ''shop.example'' (Str ''42'') (Str ''0''))
             = ([], Inr (failure (Str ''/'') ''Rating must be 1..5''))"
    using order [where req = "submission ''shop.example'' (Str ''42'') (Str ''0'')"
        and f = "plain_fields ''gid://shopify/Product/42'' (Fin 0)"
        and g = "''gid://shopify/Product/42''" and devToken = "''dev-token''"]
      fields_42_0 rating_0
    by (simp add: parts)
  from a b c d e f g show ?thesis
    by (simp only: simp_thms)
qed

subsection \<open>The rating check\<close>

lemma ratings_read:
  "ToNumber js (Str ''1'') = Inr (Fin 1)"
  "ToNumber js (Str ''5'') = Inr (Fin 5)"
  "ToNumber js (Str ''0'') = Inr (Fin 0)"
  "ToNumber js (Str ''6'') = Inr (Fin 6)"
  "ToNumber js (Str ''3.5'') = Inr (Fin (7 / 2))"
  "ToNumber js (Str ''abc'') = Inr NaN"
  by code_simp+

lemma ratings_checked:
  "\<not> rating_invalid (Fin 1)"
  "\<not> rating_invalid (Fin 5)"
  "rating_invalid (Fin 0)"
  "rating_invalid (Fin 6)"
  "rating_invalid (Fin (7 / 2))"
  "rating_invalid NaN"
  by code_simp+

text \<open>
  Claim C5: the rating is the number that \<^verbatim>\<open>Number\<close> reads from the raw rating field, and
  the rating check passes exactly when that number is one of the integers 1, 2, 3, 4, 5.
  The ratings 1 and 5 pass; 0, 6, 3.5 and the text \<^verbatim>\<open>abc\<close> (which reads as \<^verbatim>\<open>NaN\<close>)
  fail. In both handlers a submission that reaches the rating check and fails it is
  answered with \<open>{ok: false, message: "Rating must be 1..5"}\<close>, and nothing has been
  looked up or sent.
\<close>

theorem c5_rating_check:
  "(read_fields rt b = Inr f \<longrightarrow> ToNumber rt (get b ''rating'') = Inr (rating f))
   \<and> (\<not> rating_invalid n) = (n \<in> {Fin 1, Fin 2, Fin 3, Fin 4, Fin 5})
   \<and> (truthy (shop_of req) \<and> read_fields rt (body_of req) = Inr f
        \<and> productGid f = Some g \<and> g \<noteq> [] \<and> rating_invalid (rating f) \<longrightarrow>
        web_try rt w req = ([], Inr (failure (returnTo_of req) ''Rating must be 1..5'')))
   \<and> (truthy (shop_of req) \<and> dev_credential w (shop_of req) = Some devToken
        \<and> read_fields rt (body_of req) = Inr f
        \<and> productGid f = Some g \<and> g \<noteq> [] \<and> rating_invalid (rating f) \<longrightarrow>
        api_try rt w req = ([], Inr (failure (returnTo_of req) ''Rating must be 1..5'')))
   \<and> ToNumber js (Str ''1'') = Inr (Fin 1) \<and> \<not> rating_invalid (Fin 1)
   \<and> ToNumber js (Str ''5'') = Inr (Fin 5) \<and> \<not> rating_invalid (Fin 5)
   \<and> ToNumber js (Str ''0'') = Inr (Fin 0) \<and> rating_invalid (Fin 0)
   \<and> ToNumber js (Str ''6'') = Inr (Fin 6) \<and> rating_invalid (Fin 6)
   \<and> ToNumber js (Str ''3.5'') = Inr (Fin (7 / 2)) \<and> rating_invalid (Fin (7 / 2))
   \<and> ToNumber js (Str ''abc'') = Inr NaN \<and> rating_invalid NaN"
proof -
  have parse: "read_fields rt b = Inr f \<longrightarrow> ToNumber rt (get b ''rating'') = Inr (rating f)"
    by (simp add: read_fields_rating)
  have exact: "(\<not> rating_invalid n) = (n \<in> {Fin 1, Fin 2, Fin 3, Fin 4, Fin 5})"
    by (rule rating_valid_iff)
  have web: "truthy (shop_of req) \<and> read_fields rt (body_of req) = Inr f
        \<and> productGid f = Some g \<and> g \<noteq> [] \<and> rating_invalid (rating f) \<longrightarrow>
        web_try rt w req = ([], Inr (failure (returnTo_of req) ''Rating must be 1..5''))"
    using web_try_invalid_rating [of req rt f g w] by blast
  have api: "truthy (shop_of req) \<and> dev_credential w (shop_of req) = Some devToken
        \<and> read_fields rt (body_of req) = Inr f
        \<and> productGid f = Some g \<and> g \<noteq> [] \<and> rating_invalid (rating f) \<longrightarrow>
        api_try rt w req = ([], Inr (failure (returnTo_of req) ''Rating must be 1..5''))"
    using api_try_invalid_rating [of req w devToken rt f g] by blast
  from parse exact web api ratings_read ratings_checked show ?thesis
    by (intro conjI)
qed

theorem c5_rating_check_witness:
  "ToNumber js (get (Obj [(''product_id'', Str ''42''), (''rating'', Str ''0'')]) ''rating'')
     = Inr (Fin 0)
   \<and> Fin 0 \<notin> {Fin 1, Fin 2, Fin 3, Fin 4, Fin 5}
   \<and> web_try js (deployment (\<lambda>rq. Inr created_answer))
        (submission ''shop.example'' (Str ''42'') (Str ''0''))
      = ([], Inr (failure (Str ''/'') ''Rating must be 1..5''))
   \<and> api_try js (deployment (\<lambda>rq. Inr created_answer))
        (submission ''shop.example'' (Str ''42'') (Str ''0''))
      = ([], Inr (failure (Str ''/'') ''Rating must be 1..5''))"
proof -
  let ?w = "deployment (\<lambda>rq. Inr created_answer)"
  let ?req = "submission ''shop.example'' (Str ''42'') (Str ''0'')"
  let ?f = "plain_fields ''gid://shopify/Product/42'' (Fin 0)"
  note parts = submission_parts deployment_parts truthy_def plain_fields_def
  note c5 = c5_rating_check [where rt = js and f = ?f and g = "''gid://shopify/Product/42''"
      and w = ?w and req = ?req and devToken = "''dev-token''" and n = "Fin 0"
      and b = "Obj [(''product_id'', Str ''42''), (''rating'', Str ''0'')]"]
  have read: "ToNumber js (get (Obj [(''product_id'', Str ''42''), (''rating'', Str ''0'')]) ''rating'')
      = Inr (Fin 0)"
    using c5 fields_42_0 by (simp add: parts)
  have outside: "Fin 0 \<notin> {Fin 1, Fin 2, Fin 3, Fin 4, Fin 5}"
    using c5 rating_0 by blast
  have web: "web_try js ?w ?req = ([], Inr (failure (Str ''/'') ''Rating must be 1..5''))"
    using c5 fields_42_0 rating_0 by (simp add: parts)
  have api: "api_try js ?w ?req = ([], Inr (failure (Str ''/'') ''Rating must be 1..5''))"
    using c5 fields_42_0 rating_0 by (simp add: parts)
  from read outside web api show ?thesis
    by (simp only: simp_thms)
qed

subsection \<open>The authorization gate\<close>

lemma fst_respond: "fst (respond send r tried) = fst tried"
  by (simp add: respond_def split: sum.splits)

lemma events_submit:
  "fst (web_submit rt w req) = fst (web_try rt w req)"
  "fst (api_submit rt w req) = fst (api_try rt w req)"
  by (simp_all add: web_submit_def api_submit_def fst_respond)

text \<open>
  Claim C6: a submission for a tenant without a stored credential (in \<^verbatim>\<open>web/index.ts\<close>:
  no offline session is found for the shop, or its token is empty; in \<^verbatim>\<open>api/index.ts\<close>:
  there is no development token for the shop) is answered with the page of
  \<open>{ok: false, message: "App not authorized for this shop"}\<close>, however valid its remaining
  input is: in \<^verbatim>\<open>web/index.ts\<close> when the tenant, product reference and rating pass their
  checks, in \<^verbatim>\<open>api/index.ts\<close> whenever the tenant is given. No remote call is issued
  for such a submission, whatever the remaining input.
\<close>

theorem c6_authorization_gate:
  "(session_findFirst w (shop_of req) = Inr None
      \<or> (\<exists>found. session_findFirst w (shop_of req) = Inr (Some found) \<and> accessToken found = [])
     \<longrightarrow>
       (\<forall>rq. Fetch rq \<notin> set (fst (web_submit rt w req)))
     \<and> (truthy (shop_of req) \<and> read_fields rt (body_of req) = Inr f
          \<and> productGid f = Some g \<and> g \<noteq> [] \<and> \<not> rating_invalid (rating f) \<longrightarrow>
          snd (web_try rt w req)
            = Inr (failure (returnTo_of req) ''App not authorized for this shop'')
          \<and> web_submit rt w req
            = ([FindSession (shop_of req)],
               sendHtml_web rt (failure (returnTo_of req) ''App not authorized for this shop''))))
   \<and> (dev_credential w (shop_of req) = None \<longrightarrow>
       fst (api_submit rt w req) = []
     \<and> (truthy (shop_of req) \<longrightarrow>
          snd (api_try rt w req)
            = Inr (failure (returnTo_of req) ''App not authorized for this shop'')
          \<and> api_submit rt w req
            = ([], sendHtml_api rt (failure (returnTo_of req) ''App not authorized for this shop''))))"
proof (intro conjI impI allI)
  fix rq
  assume "session_findFirst w (shop_of req) = Inr None
      \<or> (\<exists>found. session_findFirst w (shop_of req) = Inr (Some found) \<and> accessToken found = [])"
  then show "Fetch rq \<notin> set (fst (web_submit rt w req))"
    by (simp only: events_submit no_fetch_web not_False_eq_True)
next
  assume none: "session_findFirst w (shop_of req) = Inr None
      \<or> (\<exists>found. session_findFirst w (shop_of req) = Inr (Some found) \<and> accessToken found = [])"
    and valid: "truthy (shop_of req) \<and> read_fields rt (body_of req) = Inr f
          \<and> productGid f = Some g \<and> g \<noteq> [] \<and> \<not> rating_invalid (rating f)"
  from valid none have tried: "web_try rt w req =
      ([FindSession (shop_of req)],
       Inr (failure (returnTo_of req) ''App not authorized for this shop''))"
    using web_try_unauthorized [of req rt f g w] by blast
  then show "snd (web_try rt w req)
      = Inr (failure (returnTo_of req) ''App not authorized for this shop'')"
    by simp
  from tried show "web_submit rt w req
      = ([FindSession (shop_of req)],
         sendHtml_web rt (failure (returnTo_of req) ''App not authorized for this shop''))"
    by (rule web_submit_failure)
next
  assume "dev_credential w (shop_of req) = None"
  then show "fst (api_submit rt w req) = []"
    by (simp add: events_submit no_fetch_api)
next
  assume "dev_credential w (shop_of req) = None" and "truthy (shop_of req)"
  then have tried: "api_try rt w req =
      ([], Inr (failure (returnTo_of req) ''App not authorized for this shop''))"
    by (simp add: api_try_unauthorized)
  then show "snd (api_try rt w req)
      = Inr (failure (returnTo_of req) ''App not authorized for this shop'')"
    by simp
  from tried show "api_submit rt w req
      = ([], sendHtml_api rt (failure (returnTo_of req) ''App not authorized for this shop''))"
    by (rule api_submit_failure)
qed

theorem c6_authorization_gate_witness:
  "session_findFirst (deployment (\<lambda>rq. Inr created_answer)) (Str ''unknown.example'') = Inr None
   \<and> dev_credential (deployment (\<lambda>rq. Inr created_answer)) (Str ''unknown.example'') = None
   \<and> web_submit js (deployment (\<lambda>rq. Inr created_answer))
        (submission ''unknown.example'' (Str ''42'') (Str ''5''))
      = ([FindSession (Str ''unknown.example'')],
         sendHtml_web js (failure (Str ''/'') ''App not authorized for this shop''))
   \<and> api_submit js (deployment (\<lambda>rq. Inr created_answer))
        (submission ''unknown.example'' (Str ''42'') (Str ''5''))
      = ([], sendHtml_api js (failure (Str ''/'') ''App not authorized for this shop''))"
proof -
  let ?w = "deployment (\<lambda>rq. Inr created_answer)"
  let ?req = "submission ''unknown.example'' (Str ''42'') (Str ''5'')"
  note parts = submission_parts other_shop truthy_def plain_fields_def
  note c6 = c6_authorization_gate [where rt = js and w = ?w and req = ?req
      and f = "plain_fields ''gid://shopify/Product/42'' (Fin 5)"
      and g = "''gid://shopify/Product/42''"]
  have unknown: "session_findFirst ?w (Str ''unknown.example'') = Inr None"
    "dev_credential ?w (Str ''unknown.example'') = None"
    by (simp_all add: other_shop)
  have web: "web_submit js ?w ?req
      = ([FindSession (Str ''unknown.example'')],
         sendHtml_web js (failure (Str ''/'') ''App not authorized for this shop''))"
    using c6 fields_42_5 rating_5 by (simp add: parts)
  have api: "api_submit js ?w ?req
      = ([], sendHtml_api js (failure (Str ''/'') ''App not authorized for this shop''))"
    using c6 by (simp add: parts)
  from unknown web api show ?thesis
    by (simp only: simp_thms)
qed

subsection \<open>The response\<close>

lemma sendHtml_web_page:
  "sendHtml_web rt opts = Inr page \<Longrightarrow>
   status page = 200 \<and> content_type page = ''text/html''
   \<and> startsWith (html page) ''<!doctype html>''"
  by (auto simp: sendHtml_web_def res_type_def startsWith_def Let_def split: sum.splits)

lemma sendHtml_api_page:
  "sendHtml_api rt opts = Inr page \<Longrightarrow>
   status page = 200 \<and> content_type page = ''text/html''
   \<and> startsWith (html page) ''<!doctype html>''"
  by (auto simp: sendHtml_api_def res_type_def startsWith_def Let_def split: sum.splits)

lemma respond_sent:
  "snd (respond send r tried) = Inr page \<Longrightarrow> \<exists>opts. send opts = Inr page"
  by (auto simp: respond_def split: sum.splits)

text \<open>
  Claim C9: every response that a handler of the submission endpoint sends, on the
  success path and on every failure path, has status 200 and is an HTML page: its type is
  \<^verbatim>\<open>text/html\<close> and its body begins with \<^verbatim>\<open><!doctype html>\<close>. The handlers set no other
  status.
\<close>

theorem c9_status_200:
  "(snd (web_submit rt w req) = Inr page \<longrightarrow>
      status page = 200 \<and> content_type page = ''text/html''
      \<and> startsWith (html page) ''<!doctype html>'')
   \<and> (snd (api_submit rt w req) = Inr page \<longrightarrow>
      status page = 200 \<and> content_type page = ''text/html''
      \<and> startsWith (html page) ''<!doctype html>'')"
proof -
  have web: "status page = 200 \<and> content_type page = ''text/html''
      \<and> startsWith (html page) ''<!doctype html>''"
    if "snd (web_submit rt w req) = Inr page"
  proof -
    from that obtain opts where "sendHtml_web rt opts = Inr page"
      unfolding web_submit_def by (blast dest: respond_sent)
    then show ?thesis
      by (rule sendHtml_web_page)
  qed
  have api: "status page = 200 \<and> content_type page = ''text/html''
      \<and> startsWith (html page) ''<!doctype html>''"
    if "snd (api_submit rt w req) = Inr page"
  proof -
    from that obtain opts where "sendHtml_api rt opts = Inr page"
      unfolding api_submit_def by (blast dest: respond_sent)
    then show ?thesis
      by (rule sendHtml_api_page)
  qed
  from web api show ?thesis
    by blast
qed

lemma rating_page_api:
  \<open>sendHtml_api js (failure (Str ''/'') ''Rating must be 1..5'') =
     Inr \<lparr>status = 200, content_type = ''text/html'',
          html = ''<!doctype html>\<newline><meta charset="utf-8"><style>body{font:16px system-ui;padding:24px}</style>\<newline><h1>We couldn't save your review</h1>\<newline><p><small>Rating must be 1..5</small></p>\<newline><p><a href="/">Continue</a></p>\<newline><script>location.replace("/");</script>''\<rparr>\<close>
  by code_simp

lemma created_page_web:
  \<open>sendHtml_web js (success (Str ''/'') (Str ''gid://x/Metaobject/1'')) =
     Inr \<lparr>status = 200, content_type = ''text/html'',
          html = ''<!doctype html>\<newline><meta charset="utf-8">\<newline><title>Thanks!</title>\<newline><style>body{font:16px/1.4 system-ui, sans-serif; padding:24px}</style>\<newline><h1>Thanks for your review!</h1>\<newline><p>Review ID: gid://x/Metaobject/1</p>\<newline>\<newline><p><a href="/">Continue</a></p>\<newline><script>location.replace("/");</script>''\<rparr>\<close>
  by code_simp

lemma web_submit_sent:
  "snd (web_try rt w req) = Inr opts \<Longrightarrow> sendHtml_web rt opts = Inr page \<Longrightarrow>
   snd (web_submit rt w req) = Inr page"
  by (simp add: web_submit_def respond_def)

lemma api_submit_sent:
  "snd (api_try rt w req) = Inr opts \<Longrightarrow> sendHtml_api rt opts = Inr page \<Longrightarrow>
   snd (api_submit rt w req) = Inr page"
  by (simp add: api_submit_def respond_def)

theorem c9_status_200_witness:
  \<open>snd (api_submit js (deployment (\<lambda>rq. Inr created_answer))
          (submission ''shop.example'' (Str ''42'') (Str ''0''))) =
     Inr \<lparr>status = 200, content_type = ''text/html'',
          html = ''<!doctype html>\<newline><meta charset="utf-8"><style>body{font:16px system-ui;padding:24px}</style>\<newline><h1>We couldn't save your review</h1>\<newline><p><small>Rating must be 1..5</small></p>\<newline><p><a href="/">Continue</a></p>\<newline><script>location.replace("/");</script>''\<rparr>
   \<and> snd (web_submit js (deployment (\<lambda>rq. Inr created_answer))
          (submission ''shop.example'' (Str ''42'') (Str ''5''))) =
     Inr \<lparr>status = 200, content_type = ''text/html'',
          html = ''<!doctype html>\<newline><meta charset="utf-8">\<newline><title>Thanks!</title>\<newline><style>body{font:16px/1.4 system-ui, sans-serif; padding:24px}</style>\<newline><h1>Thanks for your review!</h1>\<newline><p>Review ID: gid://x/Metaobject/1</p>\<newline>\<newline><p><a href="/">Continue</a></p>\<newline><script>location.replace("/");</script>''\<rparr>\<close>
proof -
  let ?w = "deployment (\<lambda>rq. Inr created_answer)"
  have parsed: "after_fetch js (Str ''/'') created_answer
      = success (Str ''/'') (Str ''gid://x/Metaobject/1'')"
    by code_simp
  have api_tried: "snd (api_try js ?w (submission ''shop.example'' (Str ''42'') (Str ''0'')))
      = Inr (failure (Str ''/'') ''Rating must be 1..5'')"
    using api_try_invalid_rating [of "submission ''shop.example'' (Str ''42'') (Str ''0'')" ?w
        "''dev-token''" js "plain_fields ''gid://shopify/Product/42'' (Fin 0)"
        "''gid://shopify/Product/42''"] fields_42_0 rating_0
    by (simp add: submission_parts deployment_parts truthy_def plain_fields_def)
  have web_tried: "snd (web_try js ?w (submission ''shop.example'' (Str ''42'') (Str ''5'')))
      = Inr (success (Str ''/'') (Str ''gid://x/Metaobject/1''))"
    by (simp add: scenario_web parsed)
  note api = api_submit_sent [OF api_tried rating_page_api]
  note web = web_submit_sent [OF web_tried created_page_web]
  from c9_status_200 [of js ?w "submission ''shop.example'' (Str ''42'') (Str ''5'')"] web
    c9_status_200 [of js ?w "submission ''shop.example'' (Str ''42'') (Str ''0'')"] api
  show ?thesis
    by (simp only: simp_thms)
qed

subsection \<open>The creation timestamp\<close>













subsection \<open>The mutation\<close>

lemma printed_5: "NumberToString js (Fin 5) = ''5''"
  by code_simp









subsection \<open>The rendering directives\<close>

lemma after_fetch_directive:
  "after_fetch rt r raw = failure r ''API returned non-JSON''
   \<or> after_fetch rt r raw = failure r ''Validation error''
   \<or> (\<exists>i. after_fetch rt r raw = success r i)"
  by (auto simp: after_fetch_def split: option.splits)

lemma call_remote_directive:
  "snd (call_remote rt w shop token m vars r) = Inr opts \<Longrightarrow>
   opts = failure r ''API returned non-JSON'' \<or> opts = failure r ''Validation error''
   \<or> (\<exists>i. opts = success r i)"
  using after_fetch_directive [of rt r]
  by (auto simp: call_remote_def Let_def split: sum.splits)

lemma web_try_directive:
  assumes "snd (web_try rt w req) = Inr opts"
  shows "opts = failure (returnTo_of req) ''Missing shop''
     \<or> opts = failure (returnTo_of req) ''Invalid product id''
     \<or> opts = failure (returnTo_of req) ''Rating must be 1..5''
     \<or> opts = failure (returnTo_of req) ''App not authorized for this shop''
     \<or> opts = failure (returnTo_of req) ''Validation error''
     \<or> opts = failure (returnTo_of req) ''API returned non-JSON''
     \<or> (\<exists>i. opts = success (returnTo_of req) i)"
  using assms call_remote_directive [of rt w _ _ _ _ "returnTo_of req" opts]
  unfolding web_try_def Let_def
  by (auto split: if_splits sum.splits option.splits)

lemma api_try_directive:
  assumes "snd (api_try rt w req) = Inr opts"
  shows "opts = failure (returnTo_of req) ''Missing shop''
     \<or> opts = failure (returnTo_of req) ''Invalid product id''
     \<or> opts = failure (returnTo_of req) ''Rating must be 1..5''
     \<or> opts = failure (returnTo_of req) ''App not authorized for this shop''
     \<or> opts = failure (returnTo_of req) ''Validation error''
     \<or> opts = failure (returnTo_of req) ''API returned non-JSON''
     \<or> (\<exists>i. opts = success (returnTo_of req) i)"
  using assms call_remote_directive [of rt w _ _ _ _ "returnTo_of req" opts]
  unfolding api_try_def Let_def
  by (auto split: if_splits sum.splits option.splits)

lemma directive_target:
  "snd (web_try rt w req) = Inr opts \<Longrightarrow> returnTo opts = returnTo_of req"
  "snd (api_try rt w req) = Inr opts \<Longrightarrow> returnTo opts = returnTo_of req"
  using web_try_directive [of rt w req opts] api_try_directive [of rt w req opts]
  by (auto simp: failure_def success_def)

lemma web_same_page:
  assumes "snd (web_try rt w req) = Inr opts" "snd (web_try rt w' req') = Inr opts'"
    "ok opts = ok opts'" "message opts = message opts'" "review_id opts = review_id opts'"
    "returnTo_of req = returnTo_of req'"
  shows "opts = opts' \<and> snd (web_submit rt w req) = snd (web_submit rt w' req')"
proof -
  from assms(1,2,6) have "returnTo opts = returnTo opts'"
    by (simp add: directive_target)
  with assms(3-5) have same: "opts = opts'"
    by simp
  with assms(1,2,6) show ?thesis
    by (simp add: web_submit_def respond_def split: sum.splits)
qed

lemma api_same_page:
  assumes "snd (api_try rt w req) = Inr opts" "snd (api_try rt w' req') = Inr opts'"
    "ok opts = ok opts'" "message opts = message opts'" "review_id opts = review_id opts'"
    "returnTo_of req = returnTo_of req'"
  shows "opts = opts' \<and> snd (api_submit rt w req) = snd (api_submit rt w' req')"
proof -
  from assms(1,2,6) have "returnTo opts = returnTo opts'"
    by (simp add: directive_target)
  with assms(3-5) have same: "opts = opts'"
    by simp
  with assms(1,2,6) show ?thesis
    by (simp add: api_submit_def respond_def split: sum.splits)
qed

lemma fields_7_6:
  "read_fields js (Obj [(''product_id'', Str ''7''), (''rating'', Str ''6'')])
     = Inr (plain_fields ''gid://shopify/Product/7'' (Fin 6))"
  by code_simp

text \<open>
  Claim C8: the handlers have no separate reporter; the mapping from outcomes to rendering
  directives is the literal object handed to \<^verbatim>\<open>sendHtml\<close> at each \<^verbatim>\<open>return\<close>. In both
  handlers each outcome has exactly one directive, made of the request's return target and
  of literals only:
  \<^item> a missing tenant gives \<open>{ok: false, message: "Missing shop"}\<close>;
  \<^item> a product reference that does not normalize gives
    \<open>{ok: false, message: "Invalid product id"}\<close>;
  \<^item> a rating that fails its check gives \<open>{ok: false, message: "Rating must be 1..5"}\<close>;
  \<^item> a missing credential gives \<open>{ok: false, message: "App not authorized for this shop"}\<close>;
  \<^item> a remote answer with field errors gives \<open>{ok: false, message: "Validation error"}\<close>;
  \<^item> a remote answer that does not parse gives
    \<open>{ok: false, message: "API returned non-JSON"}\<close>;
  \<^item> an exception inside the \<^verbatim>\<open>try\<close> block gives
    \<open>{ok: false, message: "Server error"}\<close>, rendered by the catch clause;
  \<^item> every other remote answer gives \<open>{ok: true, id}\<close> with the identifier read from it.

  The mapping is total: whatever a \<^verbatim>\<open>try\<close> block hands over is one of these directives.
  The seven messages are pairwise different. And the output depends on nothing but the
  outcome, the identifier and the return target: two runs, in whatever worlds and on
  whatever requests, that end in the same outcome with the same identifier and the same
  return target hand over the same directive and send the same page.
\<close>

theorem c8_outcome_mapping:
  "(\<not> truthy (shop_of req) \<longrightarrow>
        snd (web_try rt w req) = Inr \<lparr>ok = False, returnTo = returnTo_of req,
               review_id = Undefined, message = Some ''Missing shop''\<rparr>
      \<and> snd (api_try rt w req) = Inr \<lparr>ok = False, returnTo = returnTo_of req,
               review_id = Undefined, message = Some ''Missing shop''\<rparr>)
   \<and> (truthy (shop_of req) \<and> read_fields rt (body_of req) = Inr f \<longrightarrow>
        (productGid f = None \<or> productGid f = Some [] \<longrightarrow>
           snd (web_try rt w req) = Inr \<lparr>ok = False, returnTo = returnTo_of req,
               review_id = Undefined, message = Some ''Invalid product id''\<rparr>)
      \<and> (productGid f = Some g \<and> g \<noteq> [] \<and> rating_invalid (rating f) \<longrightarrow>
           snd (web_try rt w req) = Inr \<lparr>ok = False, returnTo = returnTo_of req,
               review_id = Undefined, message = Some ''Rating must be 1..5''\<rparr>)
      \<and> (productGid f = Some g \<and> g \<noteq> [] \<and> \<not> rating_invalid (rating f)
          \<and> (session_findFirst w (shop_of req) = Inr None
              \<or> (\<exists>found. session_findFirst w (shop_of req) = Inr (Some found)
                    \<and> accessToken found = [])) \<longrightarrow>
           snd (web_try rt w req) = Inr \<lparr>ok = False, returnTo = returnTo_of req,
               review_id = Undefined, message = Some ''App not authorized for this shop''\<rparr>))
   \<and> (truthy (shop_of req) \<and> dev_credential w (shop_of req) = None \<longrightarrow>
        snd (api_try rt w req) = Inr \<lparr>ok = False, returnTo = returnTo_of req,
               review_id = Undefined, message = Some ''App not authorized for this shop''\<rparr>)
   \<and> (truthy (shop_of req) \<and> dev_credential w (shop_of req) = Some devToken
        \<and> read_fields rt (body_of req) = Inr f \<longrightarrow>
        (productGid f = None \<or> productGid f = Some [] \<longrightarrow>
           snd (api_try rt w req) = Inr \<lparr>ok = False, returnTo = returnTo_of req,
               review_id = Undefined, message = Some ''Invalid product id''\<rparr>)
      \<and> (productGid f = Some g \<and> g \<noteq> [] \<and> rating_invalid (rating f) \<longrightarrow>
           snd (api_try rt w req) = Inr \<lparr>ok = False, returnTo = returnTo_of req,
               review_id = Undefined, message = Some ''Rating must be 1..5''\<rparr>))
   \<and> (Fetch rq \<in> set (fst (web_try rt w req)) \<and> fetch_text w rq = Inr raw \<longrightarrow>
        (JSON_parse rt raw = None \<longrightarrow>
           snd (web_try rt w req) = Inr \<lparr>ok = False, returnTo = returnTo_of req,
               review_id = Undefined, message = Some ''API returned non-JSON''\<rparr>)
      \<and> (JSON_parse rt raw = Some json \<and> truthy (length_of (userErrors json)) \<longrightarrow>
           snd (web_try rt w req) = Inr \<lparr>ok = False, returnTo = returnTo_of req,
               review_id = Undefined, message = Some ''Validation error''\<rparr>)
      \<and> (JSON_parse rt raw = Some json \<and> \<not> truthy (length_of (userErrors json)) \<longrightarrow>
           snd (web_try rt w req) = Inr \<lparr>ok = True, returnTo = returnTo_of req,
               review_id = created_id json, message = None\<rparr>))
   \<and> (Fetch rq \<in> set (fst (api_try rt w req)) \<and> fetch_text w rq = Inr raw \<longrightarrow>
        (JSON_parse rt raw = None \<longrightarrow>
           snd (api_try rt w req) = Inr \<lparr>ok = False, returnTo = returnTo_of req,
               review_id = Undefined, message = Some ''API returned non-JSON''\<rparr>)
      \<and> (JSON_parse rt raw = Some json \<and> truthy (length_of (userErrors json)) \<longrightarrow>
           snd (api_try rt w req) = Inr \<lparr>ok = False, returnTo = returnTo_of req,
               review_id = Undefined, message = Some ''Validation error''\<rparr>)
      \<and> (JSON_parse rt raw = Some json \<and> \<not> truthy (length_of (userErrors json)) \<longrightarrow>
           snd (api_try rt w req) = Inr \<lparr>ok = True, returnTo = returnTo_of req,
               review_id = created_id json, message = None\<rparr>))
   \<and> (snd (web_try rt w req) = Inl x \<longrightarrow>
        snd (web_submit rt w req) = sendHtml_web rt \<lparr>ok = False, returnTo = returnTo_of req,
               review_id = Undefined, message = Some ''Server error''\<rparr>)
   \<and> (snd (api_try rt w req) = Inl x \<longrightarrow>
        snd (api_submit rt w req) = sendHtml_api rt \<lparr>ok = False, returnTo = returnTo_of req,
               review_id = Undefined, message = Some ''Server error''\<rparr>)
   \<and> (snd (web_try rt w req) = Inr opts \<longrightarrow>
        (opts = \<lparr>ok = False, returnTo = returnTo_of req,
               review_id = Undefined, message = Some ''Missing shop''\<rparr>
        \<or> opts = \<lparr>ok = False, returnTo = returnTo_of req,
               review_id = Undefined, message = Some ''Invalid product id''\<rparr>
        \<or> opts = \<lparr>ok = False, returnTo = returnTo_of req,
               review_id = Undefined, message = Some ''Rating must be 1..5''\<rparr>
        \<or> opts = \<lparr>ok = False, returnTo = returnTo_of req,
               review_id = Undefined, message = Some ''App not authorized for this shop''\<rparr>
        \<or> opts = \<lparr>ok = False, returnTo = returnTo_of req,
               review_id = Undefined, message = Some ''Validation error''\<rparr>
        \<or> opts = \<lparr>ok = False, returnTo = returnTo_of req,
               review_id = Undefined, message = Some ''API returned non-JSON''\<rparr>
        \<or> (\<exists>i. opts = \<lparr>ok = True, returnTo = returnTo_of req,
               review_id = i, message = None\<rparr>)))
   \<and> (snd (api_try rt w req) = Inr opts \<longrightarrow>
        (opts = \<lparr>ok = False, returnTo = returnTo_of req,
               review_id = Undefined, message = Some ''Missing shop''\<rparr>
        \<or> opts = \<lparr>ok = False, returnTo = returnTo_of req,
               review_id = Undefined, message = Some ''Invalid product id''\<rparr>
        \<or> opts = \<lparr>ok = False, returnTo = returnTo_of req,
               review_id = Undefined, message = Some ''Rating must be 1..5''\<rparr>
        \<or> opts = \<lparr>ok = False, returnTo = returnTo_of req,
               review_id = Undefined, message = Some ''App not authorized for this shop''\<rparr>
        \<or> opts = \<lparr>ok = False, returnTo = returnTo_of req,
               review_id = Undefined, message = Some ''Validation error''\<rparr>
        \<or> opts = \<lparr>ok = False, returnTo = returnTo_of req,
               review_id = Undefined, message = Some ''API returned non-JSON''\<rparr>
        \<or> (\<exists>i. opts = \<lparr>ok = True, returnTo = returnTo_of req,
               review_id = i, message = None\<rparr>)))
   \<and> (snd (web_try rt w req) = Inr opts \<and> snd (web_try rt w' req') = Inr opts'
        \<and> ok opts = ok opts' \<and> message opts = message opts' \<and> review_id opts = review_id opts'
        \<and> returnTo_of req = returnTo_of req' \<longrightarrow>
        opts = opts' \<and> snd (web_submit rt w req) = snd (web_submit rt w' req'))
   \<and> (snd (api_try rt w req) = Inr opts \<and> snd (api_try rt w' req') = Inr opts'
        \<and> ok opts = ok opts' \<and> message opts = message opts' \<and> review_id opts = review_id opts'
        \<and> returnTo_of req = returnTo_of req' \<longrightarrow>
        opts = opts' \<and> snd (api_submit rt w req) = snd (api_submit rt w' req'))
   \<and> distinct [''Missing shop'', ''Invalid product id'', ''Rating must be 1..5'',
        ''App not authorized for this shop'', ''Validation error'', ''API returned non-JSON'',
        ''Server error'']"
proof -
  have missing: "(\<not> truthy (shop_of req) \<longrightarrow>
        snd (web_try rt w req) = Inr \<lparr>ok = False, returnTo = returnTo_of req,
               review_id = Undefined, message = Some ''Missing shop''\<rparr>
      \<and> snd (api_try rt w req) = Inr \<lparr>ok = False, returnTo = returnTo_of req,
               review_id = Undefined, message = Some ''Missing shop''\<rparr>)"
    by (simp add: web_try_missing_shop api_try_missing_shop failure_def)
  have web_checks: "(truthy (shop_of req) \<and> read_fields rt (body_of req) = Inr f \<longrightarrow>
        (productGid f = None \<or> productGid f = Some [] \<longrightarrow>
           snd (web_try rt w req) = Inr \<lparr>ok = False, returnTo = returnTo_of req,
               review_id = Undefined, message = Some ''Invalid product id''\<rparr>)
      \<and> (productGid f = Some g \<and> g \<noteq> [] \<and> rating_invalid (rating f) \<longrightarrow>
           snd (web_try rt w req) = Inr \<lparr>ok = False, returnTo = returnTo_of req,
               review_id = Undefined, message = Some ''Rating must be 1..5''\<rparr>)
      \<and> (productGid f = Some g \<and> g \<noteq> [] \<and> \<not> rating_invalid (rating f)
          \<and> (session_findFirst w (shop_of req) = Inr None
              \<or> (\<exists>found. session_findFirst w (shop_of req) = Inr (Some found)
                    \<and> accessToken found = [])) \<longrightarrow>
           snd (web_try rt w req) = Inr \<lparr>ok = False, returnTo = returnTo_of req,
               review_id = Undefined, message = Some ''App not authorized for this shop''\<rparr>))"
    using web_try_invalid_product [of req rt f w] web_try_invalid_rating [of req rt f g w]
      web_try_unauthorized [of req rt f g w]
    unfolding failure_def by auto
  have api_gate: "(truthy (shop_of req) \<and> dev_credential w (shop_of req) = None \<longrightarrow>
        snd (api_try rt w req) = Inr \<lparr>ok = False, returnTo = returnTo_of req,
               review_id = Undefined, message = Some ''App not authorized for this shop''\<rparr>)"
    by (simp add: api_try_unauthorized failure_def)
  have api_checks: "(truthy (shop_of req) \<and> dev_credential w (shop_of req) = Some devToken
        \<and> read_fields rt (body_of req) = Inr f \<longrightarrow>
        (productGid f = None \<or> productGid f = Some [] \<longrightarrow>
           snd (api_try rt w req) = Inr \<lparr>ok = False, returnTo = returnTo_of req,
               review_id = Undefined, message = Some ''Invalid product id''\<rparr>)
      \<and> (productGid f = Some g \<and> g \<noteq> [] \<and> rating_invalid (rating f) \<longrightarrow>
           snd (api_try rt w req) = Inr \<lparr>ok = False, returnTo = returnTo_of req,
               review_id = Undefined, message = Some ''Rating must be 1..5''\<rparr>))"
    using api_try_invalid_product [of req w devToken rt f]
      api_try_invalid_rating [of req w devToken rt f g]
    unfolding failure_def by auto
  have web_remote: "(Fetch rq \<in> set (fst (web_try rt w req)) \<and> fetch_text w rq = Inr raw \<longrightarrow>
        (JSON_parse rt raw = None \<longrightarrow>
           snd (web_try rt w req) = Inr \<lparr>ok = False, returnTo = returnTo_of req,
               review_id = Undefined, message = Some ''API returned non-JSON''\<rparr>)
      \<and> (JSON_parse rt raw = Some json \<and> truthy (length_of (userErrors json)) \<longrightarrow>
           snd (web_try rt w req) = Inr \<lparr>ok = False, returnTo = returnTo_of req,
               review_id = Undefined, message = Some ''Validation error''\<rparr>)
      \<and> (JSON_parse rt raw = Some json \<and> \<not> truthy (length_of (userErrors json)) \<longrightarrow>
           snd (web_try rt w req) = Inr \<lparr>ok = True, returnTo = returnTo_of req,
               review_id = created_id json, message = None\<rparr>))"
    using web_classified [of rq rt w req] by (simp add: failure_def success_def)
  have api_remote: "(Fetch rq \<in> set (fst (api_try rt w req)) \<and> fetch_text w rq = Inr raw \<longrightarrow>
        (JSON_parse rt raw = None \<longrightarrow>
           snd (api_try rt w req) = Inr \<lparr>ok = False, returnTo = returnTo_of req,
               review_id = Undefined, message = Some ''API returned non-JSON''\<rparr>)
      \<and> (JSON_parse rt raw = Some json \<and> truthy (length_of (userErrors json)) \<longrightarrow>
           snd (api_try rt w req) = Inr \<lparr>ok = False, returnTo = returnTo_of req,
               review_id = Undefined, message = Some ''Validation error''\<rparr>)
      \<and> (JSON_parse rt raw = Some json \<and> \<not> truthy (length_of (userErrors json)) \<longrightarrow>
           snd (api_try rt w req) = Inr \<lparr>ok = True, returnTo = returnTo_of req,
               review_id = created_id json, message = None\<rparr>))"
    using api_classified [of rq rt w req] by (simp add: failure_def success_def)
  have web_caught: "(snd (web_try rt w req) = Inl x \<longrightarrow>
        snd (web_submit rt w req) = sendHtml_web rt \<lparr>ok = False, returnTo = returnTo_of req,
               review_id = Undefined, message = Some ''Server error''\<rparr>)"
    by (simp add: web_submit_def respond_exn failure_def)
  have api_caught: "(snd (api_try rt w req) = Inl x \<longrightarrow>
        snd (api_submit rt w req) = sendHtml_api rt \<lparr>ok = False, returnTo = returnTo_of req,
               review_id = Undefined, message = Some ''Server error''\<rparr>)"
    by (simp add: api_submit_def respond_exn failure_def)
  have web_listed: "(snd (web_try rt w req) = Inr opts \<longrightarrow>
        (opts = \<lparr>ok = False, returnTo = returnTo_of req,
               review_id = Undefined, message = Some ''Missing shop''\<rparr>
        \<or> opts = \<lparr>ok = False, returnTo = returnTo_of req,
               review_id = Undefined, message = Some ''Invalid product id''\<rparr>
        \<or> opts = \<lparr>ok = False, returnTo = returnTo_of req,
               review_id = Undefined, message = Some ''Rating must be 1..5''\<rparr>
        \<or> opts = \<lparr>ok = False, returnTo = returnTo_of req,
               review_id = Undefined, message = Some ''App not authorized for this shop''\<rparr>
        \<or> opts = \<lparr>ok = False, returnTo = returnTo_of req,
               review_id = Undefined, message = Some ''Validation error''\<rparr>
        \<or> opts = \<lparr>ok = False, returnTo = returnTo_of req,
               review_id = Undefined, message = Some ''API returned non-JSON''\<rparr>
        \<or> (\<exists>i. opts = \<lparr>ok = True, returnTo = returnTo_of req,
               review_id = i, message = None\<rparr>)))"
    using web_try_directive [of rt w req opts] by (auto simp: failure_def success_def)
  have api_listed: "(snd (api_try rt w req) = Inr opts \<longrightarrow>
        (opts = \<lparr>ok = False, returnTo = returnTo_of req,
               review_id = Undefined, message = Some ''Missing shop''\<rparr>
        \<or> opts = \<lparr>ok = False, returnTo = returnTo_of req,
               review_id = Undefined, message = Some ''Invalid product id''\<rparr>
        \<or> opts = \<lparr>ok = False, returnTo = returnTo_of req,
               review_id = Undefined, message = Some ''Rating must be 1..5''\<rparr>
        \<or> opts = \<lparr>ok = False, returnTo = returnTo_of req,
               review_id = Undefined, message = Some ''App not authorized for this shop''\<rparr>
        \<or> opts = \<lparr>ok = False, returnTo = returnTo_of req,
               review_id = Undefined, message = Some ''Validation error''\<rparr>
        \<or> opts = \<lparr>ok = False, returnTo = returnTo_of req,
               review_id = Undefined, message = Some ''API returned non-JSON''\<rparr>
        \<or> (\<exists>i. opts = \<lparr>ok = True, returnTo = returnTo_of req,
               review_id = i, message = None\<rparr>)))"
    using api_try_directive [of rt w req opts] by (auto simp: failure_def success_def)
  have web_same: "(snd (web_try rt w req) = Inr opts \<and> snd (web_try rt w' req') = Inr opts'
        \<and> ok opts = ok opts' \<and> message opts = message opts' \<and> review_id opts = review_id opts'
        \<and> returnTo_of req = returnTo_of req' \<longrightarrow>
        opts = opts' \<and> snd (web_submit rt w req) = snd (web_submit rt w' req'))"
    using web_same_page [of rt w req opts w' req' opts'] by blast
  have api_same: "(snd (api_try rt w req) = Inr opts \<and> snd (api_try rt w' req') = Inr opts'
        \<and> ok opts = ok opts' \<and> message opts = message opts' \<and> review_id opts = review_id opts'
        \<and> returnTo_of req = returnTo_of req' \<longrightarrow>
        opts = opts' \<and> snd (api_submit rt w req) = snd (api_submit rt w' req'))"
    using api_same_page [of rt w req opts w' req' opts'] by blast
  have different: "distinct [''Missing shop'', ''Invalid product id'', ''Rating must be 1..5'',
        ''App not authorized for this shop'', ''Validation error'', ''API returned non-JSON'',
        ''Server error'']"
    by simp
  from missing web_checks api_gate api_checks web_remote api_remote web_caught api_caught web_listed api_listed web_same api_same different show ?thesis
    by (intro conjI)
qed

theorem c8_outcome_mapping_witness:
  "snd (web_try js (deployment (answers created_answer)) (submission [] (Str ''42'') (Str ''5'')))
     = Inr \<lparr>ok = False, returnTo = Str ''/'', review_id = Undefined, message = Some ''Missing shop''\<rparr>
   \<and> snd (api_try js (deployment (answers created_answer))
          (submission ''shop.example'' (Str ''42'') (Str ''0'')))
     = Inr \<lparr>ok = False, returnTo = Str ''/'', review_id = Undefined, message = Some ''Rating must be 1..5''\<rparr>
   \<and> snd (web_submit js (deployment (\<lambda>rq. Inl NetworkError))
          (submission ''shop.example'' (Str ''42'') (Str ''5'')))
     = sendHtml_web js \<lparr>ok = False, returnTo = Str ''/'', review_id = Undefined, message = Some ''Server error''\<rparr>
   \<and> snd (web_submit js (deployment (answers created_answer))
          (submission ''shop.example'' (Str ''42'') (Str ''0'')))
     = snd (web_submit js (deployment (\<lambda>rq. Inl NetworkError))
          (submission ''other.example'' (Str ''7'') (Str ''6'')))"
proof -
  let ?w = "deployment (answers created_answer)"
  let ?down = "deployment (\<lambda>rq. Inl NetworkError)"
  let ?zero = "submission ''shop.example'' (Str ''42'') (Str ''0'')"
  let ?six = "submission ''other.example'' (Str ''7'') (Str ''6'')"
  let ?good = "submission ''shop.example'' (Str ''42'') (Str ''5'')"
  note parts = submission_parts deployment_parts truthy_def plain_fields_def
  note c8 = c8_outcome_mapping [where rt = js]
  have a: "snd (web_try js ?w (submission [] (Str ''42'') (Str ''5''))) = Inr \<lparr>ok = False, returnTo = Str ''/'', review_id = Undefined, message = Some ''Missing shop''\<rparr>"
    using c8 [where w = ?w and req = "submission [] (Str ''42'') (Str ''5'')"]
    by (simp add: parts)
  have b: "snd (api_try js ?w ?zero) = Inr \<lparr>ok = False, returnTo = Str ''/'', review_id = Undefined, message = Some ''Rating must be 1..5''\<rparr>"
    using c8 [where w = ?w and req = ?zero and devToken = "''dev-token''"
        and f = "plain_fields ''gid://shopify/Product/42'' (Fin 0)"
        and g = "''gid://shopify/Product/42''"] fields_42_0 rating_0
    by (simp add: parts)
  have thrown: "snd (web_try js ?down ?good) = Inl NetworkError"
    by (simp add: scenario_web)
  have c: "snd (web_submit js ?down ?good) = sendHtml_web js \<lparr>ok = False, returnTo = Str ''/'', review_id = Undefined, message = Some ''Server error''\<rparr>"
    using c8 [where w = ?down and req = ?good and x = NetworkError] thrown
    by (simp add: parts)
  have zero: "snd (web_try js ?w ?zero) = Inr \<lparr>ok = False, returnTo = Str ''/'', review_id = Undefined, message = Some ''Rating must be 1..5''\<rparr>"
    using c8 [where w = ?w and req = ?zero
        and f = "plain_fields ''gid://shopify/Product/42'' (Fin 0)"
        and g = "''gid://shopify/Product/42''"] fields_42_0 rating_0
    by (simp add: parts)
  have six: "snd (web_try js ?down ?six) = Inr \<lparr>ok = False, returnTo = Str ''/'', review_id = Undefined, message = Some ''Rating must be 1..5''\<rparr>"
    using c8 [where w = ?down and req = ?six
        and f = "plain_fields ''gid://shopify/Product/7'' (Fin 6)"
        and g = "''gid://shopify/Product/7''"] fields_7_6 ratings_checked
    by (simp add: parts)
  have d: "snd (web_submit js ?w ?zero) = snd (web_submit js ?down ?six)"
    using c8 [where w = ?w and req = ?zero and w' = ?down and req' = ?six
        and opts = "\<lparr>ok = False, returnTo = Str ''/'', review_id = Undefined, message = Some ''Rating must be 1..5''\<rparr>"
        and opts' = "\<lparr>ok = False, returnTo = Str ''/'', review_id = Undefined, message = Some ''Rating must be 1..5''\<rparr>"] zero six
    by (simp add: parts)
  from a b c d show ?thesis
    by (simp only: simp_thms)
qed

subsection \<open>Exceptions\<close>

lemma failure_page_web:
  "ToString rt r = Inr s \<Longrightarrow> \<exists>page. sendHtml_web rt (failure r m) = Inr page"
  by (auto simp: sendHtml_web_def failure_def id_part_def truthy_def esc_def default_returnTo_def
        Let_def)

lemma failure_page_api:
  "ToString rt r = Inr s \<Longrightarrow> \<exists>page. sendHtml_api rt (failure r m) = Inr page"
  by (auto simp: sendHtml_api_def failure_def id_part_def truthy_def interpolate_def
        default_returnTo_def Let_def)

lemma respond_total:
  "\<exists>page. send (failure r ''Server error'') = Inr page \<Longrightarrow>
   \<exists>page. snd (respond send r tried) = Inr page"
  by (auto simp: respond_def split: sum.splits)

text \<open>
  What the catch clause does achieve: an exception raised inside the \<^verbatim>\<open>try\<close> block, by a
  conversion, the session lookup, the remote call or the rendering of the page, is
  answered with the page of \<open>{ok: false, message: "Server error"}\<close> for the request's return
  target; and whenever that target can be converted to text, the handler sends a page.
\<close>

theorem submit_catches:
  "(snd (web_try rt w req) = Inl e \<longrightarrow>
      snd (web_submit rt w req) = sendHtml_web rt (failure (returnTo_of req) ''Server error''))
   \<and> (snd (api_try rt w req) = Inl e \<longrightarrow>
      snd (api_submit rt w req) = sendHtml_api rt (failure (returnTo_of req) ''Server error''))
   \<and> (ToString rt (returnTo_of req) = Inr s \<longrightarrow>
      (\<exists>page. snd (web_submit rt w req) = Inr page)
      \<and> (\<exists>page. snd (api_submit rt w req) = Inr page))"
proof -
  have web: "\<exists>page. snd (web_submit rt w req) = Inr page"
    if "ToString rt (returnTo_of req) = Inr s"
    unfolding web_submit_def using that by (intro respond_total failure_page_web)
  have api: "\<exists>page. snd (api_submit rt w req) = Inr page"
    if "ToString rt (returnTo_of req) = Inr s"
    unfolding api_submit_def using that by (intro respond_total failure_page_api)
  from web api show ?thesis
    by (simp add: web_submit_def api_submit_def respond_exn)
qed

theorem submit_catches_witness:
  "snd (web_try js (deployment (\<lambda>rq. Inl NetworkError))
          (submission ''shop.example'' (Str ''42'') (Str ''5''))) = Inl NetworkError
   \<and> snd (web_submit js (deployment (\<lambda>rq. Inl NetworkError))
          (submission ''shop.example'' (Str ''42'') (Str ''5'')))
     = sendHtml_web js (failure (Str ''/'') ''Server error'')
   \<and> (\<exists>page. snd (api_submit js (deployment (\<lambda>rq. Inl NetworkError))
          (submission ''shop.example'' (Str ''42'') (Str ''5''))) = Inr page)"
proof -
  let ?w = "deployment (\<lambda>rq. Inl NetworkError)"
  let ?req = "submission ''shop.example'' (Str ''42'') (Str ''5'')"
  have thrown: "snd (web_try js ?w ?req) = Inl NetworkError"
    by (simp add: scenario_web)
  from submit_catches [of js ?w ?req NetworkError "''/''"] thrown show ?thesis
    by (simp add: submission_parts)
qed

text \<open>
  Claim C10, as stated: no exception ever leaves the handler. The code breaks it. The
  catch clause renders its page with the same return target as the \<^verbatim>\<open>try\<close> block, and
  the target is whatever value \<^verbatim>\<open>return_to\<close> holds in the body. For the JSON body
  \<^verbatim>\<open>{"return_to":{"toString":1}}\<close> the target is an object that cannot be converted to
  text: the first \<^verbatim>\<open>sendHtml\<close> throws \<^verbatim>\<open>TypeError\<close> inside the \<^verbatim>\<open>try\<close> block, the catch
  clause calls \<^verbatim>\<open>sendHtml\<close> again, which throws again, and that exception leaves the
  handler, in both files and whatever the world.
\<close>

theorem c10_exception_escapes:
  \<open>js_JSON_parse ''{"return_to":{"toString":1}}'' = Some (req_body unprintable_target)
   \<and> returnTo_of unprintable_target = Obj [(''toString'', Num (Fin 1))]
   \<and> snd (web_try js w unprintable_target)
       = Inr (failure (Obj [(''toString'', Num (Fin 1))]) ''Missing shop'')
   \<and> snd (api_try js w unprintable_target)
       = Inr (failure (Obj [(''toString'', Num (Fin 1))]) ''Missing shop'')
   \<and> sendHtml_web js (failure (Obj [(''toString'', Num (Fin 1))]) ''Missing shop'') = Inl TypeError
   \<and> sendHtml_web js (failure (Obj [(''toString'', Num (Fin 1))]) ''Server error'') = Inl TypeError
   \<and> sendHtml_api js (failure (Obj [(''toString'', Num (Fin 1))]) ''Missing shop'') = Inl TypeError
   \<and> sendHtml_api js (failure (Obj [(''toString'', Num (Fin 1))]) ''Server error'') = Inl TypeError
   \<and> web_submit js w unprintable_target = ([], Inl TypeError)
   \<and> api_submit js w unprintable_target = ([], Inl TypeError)\<close>
proof -
  let ?r = "Obj [(''toString'', Num (Fin 1))]"
  have body: \<open>js_JSON_parse ''{"return_to":{"toString":1}}'' = Some (req_body unprintable_target)\<close>
    by code_simp
  have target: "returnTo_of unprintable_target = ?r"
    by code_simp
  have shop: "\<not> truthy (shop_of unprintable_target)"
    by code_simp
  have web_tried: "web_try js w unprintable_target = ([], Inr (failure ?r ''Missing shop''))"
    using web_try_missing_shop [OF shop, of js w] by (simp add: target)
  have api_tried: "api_try js w unprintable_target = ([], Inr (failure ?r ''Missing shop''))"
    using api_try_missing_shop [OF shop, of js w] by (simp add: target)
  have web_page: "sendHtml_web js (failure ?r m) = Inl TypeError" for m
    by (simp add: sendHtml_web_def failure_def id_part_def truthy_def esc_def
          default_returnTo_def has_own_def)
  have api_page: "sendHtml_api js (failure ?r m) = Inl TypeError" for m
    by (simp add: sendHtml_api_def failure_def id_part_def truthy_def interpolate_def
          default_returnTo_def has_own_def)
  have web: "web_submit js w unprintable_target = ([], Inl TypeError)"
    by (simp add: web_submit_def respond_def web_tried target web_page)
  have api: "api_submit js w unprintable_target = ([], Inl TypeError)"
    by (simp add: api_submit_def respond_def api_tried target api_page)
  from body target web_tried api_tried web_page api_page web api show ?thesis
    by simp
qed

theorem c10_exception_escapes_witness:
  "web_submit js (deployment (\<lambda>rq. Inr created_answer)) unprintable_target = ([], Inl TypeError)
   \<and> api_submit js (deployment (\<lambda>rq. Inr created_answer)) unprintable_target
       = ([], Inl TypeError)"
  using c10_exception_escapes [of "deployment (\<lambda>rq. Inr created_answer)"]
  by (simp only: simp_thms)

end
